theory Spec2Isabelle
  imports Complex_Main "HOL-Library.List_Lexorder"
begin

section \<open>Python values\<close>

text \<open>
  The repository is Python. A Python \<open>str\<close> is a sequence of Unicode code points, so
  it is modelled as a list of natural numbers; \<open>lit\<close> embeds an ASCII literal of the
  source. With \<open>HOL-Library.List_Lexorder\<close> the order \<open><\<close> on such lists is the
  lexicographic order by code point, which is Python's \<open><\<close> on \<open>str\<close>.
  Python's \<open>float\<close> is modelled by the rationals: rounding and NaN are outside the model.
  A \<open>dict\<close> is an association list in insertion order; keys are expected to be distinct
  and a lookup is \<open>map_of\<close>.
\<close>

type_synonym pystr = "nat list"

definition lit :: "string \<Rightarrow> pystr" where
  "lit s = map of_char s"

datatype pyval =
    PNone
  | PBool bool
  | PInt int
  | PFloat rat
  | PStr pystr
  | PList "pyval list"
  | PDict "(pystr \<times> pyval) list"

type_synonym pydict = "(pystr \<times> pyval) list"

text \<open>\<open>dict_get d k dflt\<close>: \<open>d.get(k, dflt)\<close>.\<close>

definition dict_get :: "pydict \<Rightarrow> pystr \<Rightarrow> pyval \<Rightarrow> pyval" where
  "dict_get d k dflt = (case map_of d k of Some v \<Rightarrow> v | None \<Rightarrow> dflt)"

text \<open>\<open>dict_set d k v\<close>: \<open>d[k] = v\<close>; an existing key keeps its place.\<close>

fun dict_set :: "pydict \<Rightarrow> pystr \<Rightarrow> pyval \<Rightarrow> pydict" where
  "dict_set [] k v = [(k, v)]"
| "dict_set ((k', v') # d) k v = (if k' = k then (k, v) # d else (k', v') # dict_set d k v)"

section \<open>Exceptions\<close>

text \<open>
  A raised exception is a value: \<open>is_Exception\<close> tells whether its class derives from
  Python's \<open>Exception\<close>, which is what a handler \<open>except Exception\<close> catches
  (\<open>KeyboardInterrupt\<close>, \<open>SystemExit\<close> and \<open>asyncio.CancelledError\<close> do not), and
  \<open>exc_str\<close> is \<open>str(e)\<close>. A computation that may raise returns \<open>pyexc + 'a\<close>,
  with \<open>Inl\<close> the raised exception. The built-in errors the model raises itself carry
  the name of their class as message.
\<close>

datatype pyexc = PyExc (is_Exception: bool) (exc_str: pystr)

definition TypeError :: pyexc where
  "TypeError = PyExc True (lit ''TypeError'')"

definition AttributeError :: pyexc where
  "AttributeError = PyExc True (lit ''AttributeError'')"

definition ValueError :: pyexc where
  "ValueError = PyExc True (lit ''ValueError'')"

text \<open>\<open>and_then\<close> sequences two computations that may raise.\<close>

definition and_then :: "pyexc + 'a \<Rightarrow> ('a \<Rightarrow> pyexc + 'b) \<Rightarrow> pyexc + 'b" where
  "and_then m f = (case m of Inl e \<Rightarrow> Inl e | Inr v \<Rightarrow> f v)"

text \<open>
  What an \<open>except Exception\<close> handler that returns \<open>dflt\<close> makes of a \<open>try\<close> body: a
  result is passed on, an exception deriving from \<open>Exception\<close> becomes \<open>dflt\<close>, any
  other exception goes on to the caller.
\<close>

definition except_Exception :: "pyexc + 'a \<Rightarrow> 'a \<Rightarrow> pyexc + 'a" where
  "except_Exception body dflt =
     (case body of Inr v \<Rightarrow> Inr v | Inl e \<Rightarrow> if is_Exception e then Inr dflt else Inl e)"

text \<open>The same for a handler that computes its result from the exception.\<close>

definition except_Exception_with :: "pyexc + 'a \<Rightarrow> (pyexc \<Rightarrow> 'a) \<Rightarrow> pyexc + 'a" where
  "except_Exception_with body handler =
     (case body of Inr v \<Rightarrow> Inr v | Inl e \<Rightarrow> if is_Exception e then Inr (handler e) else Inl e)"

section \<open>Strings\<close>

text \<open>\<open>starts_with p s\<close>: \<open>s.startswith(p)\<close>.\<close>

fun starts_with :: "pystr \<Rightarrow> pystr \<Rightarrow> bool" where
  "starts_with [] s = True"
| "starts_with (p # ps) [] = False"
| "starts_with (p # ps) (c # cs) = (p = c \<and> starts_with ps cs)"

text \<open>
  \<open>replace_scan old new s\<close> is the left-to-right scan of \<open>s.replace(old, new)\<close> for a
  non-empty \<open>old\<close>: at each position a match is replaced and skipped, any other
  character is copied.
\<close>

function replace_scan :: "pystr \<Rightarrow> pystr \<Rightarrow> pystr \<Rightarrow> pystr" where
  "replace_scan old new [] = []"
| "replace_scan old new (c # cs) =
     (if old \<noteq> [] \<and> starts_with old (c # cs)
      then new @ replace_scan old new (drop (length old) (c # cs))
      else c # replace_scan old new cs)"
  by pat_completeness auto
termination
  by (relation "measure (\<lambda>(old, new, s). length s)") auto

text \<open>\<open>str_replace s old new\<close>: \<open>s.replace(old, new)\<close>; an empty \<open>old\<close> matches
  before every character and at the end.\<close>

definition str_replace :: "pystr \<Rightarrow> pystr \<Rightarrow> pystr \<Rightarrow> pystr" where
  "str_replace s old new =
     (if old = [] then new @ concat (map (\<lambda>c. c # new) s) else replace_scan old new s)"

text \<open>\<open>str_contains sub s\<close>: \<open>sub in s\<close> on strings.\<close>

fun str_contains :: "pystr \<Rightarrow> pystr \<Rightarrow> bool" where
  "str_contains sub [] = (sub = [])"
| "str_contains sub (c # cs) = (starts_with sub (c # cs) \<or> str_contains sub cs)"

text \<open>\<open>str_lower\<close>: \<open>s.lower()\<close> on the ASCII letters; other characters are kept.\<close>

definition str_lower :: "pystr \<Rightarrow> pystr" where
  "str_lower s = map (\<lambda>c. if 65 \<le> c \<and> c \<le> 90 then c + 32 else c) s"

text \<open>\<open>str_join sep xs\<close>: \<open>sep.join(xs)\<close>.\<close>

fun str_join :: "pystr \<Rightarrow> pystr list \<Rightarrow> pystr" where
  "str_join sep [] = []"
| "str_join sep [x] = x"
| "str_join sep (x # y # ys) = x @ sep @ str_join sep (y # ys)"

section \<open>Python operations on values\<close>

text \<open>
  \<open>is_numeric v\<close> is
  \<open>isinstance(v, (int, float))\<close>, which holds for a \<open>bool\<close> too, and \<open>num_of\<close> is the
  number's value. \<open>truthy\<close> is the truth value that \<open>if v\<close> and \<open>v and ...\<close> test.
  \<open>py_get v k dflt\<close> is \<open>v.get(k, dflt)\<close>, an \<open>AttributeError\<close> unless \<open>v\<close> is a
  dict. \<open>py_in k v\<close> is \<open>k in v\<close> for a string \<open>k\<close>: a key of a dict, a substring of a
  string, an element of a list, and a \<open>TypeError\<close> for a value that is no container.
  \<open>py_len v\<close> is \<open>len(v)\<close>, and \<open>py_getitem v k\<close> is \<open>v[k]\<close> for a string \<open>k\<close>.
\<close>

fun is_numeric :: "pyval \<Rightarrow> bool" where
  "is_numeric (PInt i) = True"
| "is_numeric (PFloat x) = True"
| "is_numeric (PBool b) = True"
| "is_numeric _ = False"

fun num_of :: "pyval \<Rightarrow> rat" where
  "num_of (PInt i) = of_int i"
| "num_of (PFloat x) = x"
| "num_of (PBool b) = (if b then 1 else 0)"
| "num_of _ = 0"

fun truthy :: "pyval \<Rightarrow> bool" where
  "truthy PNone = False"
| "truthy (PBool b) = b"
| "truthy (PInt i) = (i \<noteq> 0)"
| "truthy (PFloat x) = (x \<noteq> 0)"
| "truthy (PStr s) = (s \<noteq> [])"
| "truthy (PList xs) = (xs \<noteq> [])"
| "truthy (PDict d) = (d \<noteq> [])"

fun py_get :: "pyval \<Rightarrow> pystr \<Rightarrow> pyval \<Rightarrow> pyexc + pyval" where
  "py_get (PDict d) k dflt = Inr (dict_get d k dflt)"
| "py_get _ k dflt = Inl AttributeError"

fun py_in :: "pystr \<Rightarrow> pyval \<Rightarrow> pyexc + bool" where
  "py_in k (PDict d) = Inr (k \<in> set (map fst d))"
| "py_in k (PStr s) = Inr (str_contains k s)"
| "py_in k (PList xs) = Inr (PStr k \<in> set xs)"
| "py_in k _ = Inl TypeError"

fun py_len :: "pyval \<Rightarrow> pyexc + nat" where
  "py_len (PDict d) = Inr (length d)"
| "py_len (PStr s) = Inr (length s)"
| "py_len (PList xs) = Inr (length xs)"
| "py_len _ = Inl TypeError"

fun py_getitem :: "pyval \<Rightarrow> pystr \<Rightarrow> pyexc + pyval" where
  "py_getitem (PDict d) k =
     (case map_of d k of Some v \<Rightarrow> Inr v | None \<Rightarrow> Inl (PyExc True (lit ''KeyError'')))"
| "py_getitem _ k = Inl TypeError"

text \<open>\<open>decimal n\<close>: \<open>str(n)\<close> for a natural number.\<close>

function decimal :: "nat \<Rightarrow> pystr" where
  "decimal n = (if n < 10 then [48 + n] else decimal (n div 10) @ [48 + n mod 10])"
  by pat_completeness auto
termination
  by (relation "measure id") auto

declare decimal.simps [simp del]

section \<open>utils/emoji\_cleaner.py\<close>

text \<open>
  The table \<open>emoji_replacements\<close>, in the order of the source. The keys are written
  by code point, exactly as the characters stand in the source file: there they are
  not emoji but the characters an emoji's UTF-8 bytes turn into when they are read in a
  one-byte code page (the key of \<open>[TIME]\<close> is \<open>U+00E2 U+00B0\<close>, not \<open>U+23F0\<close>).
\<close>

definition emoji_replacements :: "(pystr \<times> pystr) list" where
  "emoji_replacements =
    [([0x11F, 0x178, 0x201D, 0xB4], lit ''[HIGH RISK]''),
     ([0x11F, 0x178, 0x178, 0xA1], lit ''[MEDIUM RISK]''),
     ([0x11F, 0x178, 0x178, 0xA2], lit ''[LOW RISK]''),
     ([0xE2, 0x153, 0x2026], lit ''[OK]''),
     ([0xE2, 0x152], lit ''[FAIL]''),
     ([0xE2, 0x161, 0xA0, 0xEF, 0xB8], lit ''[WARNING]''),
     ([0x11F, 0x178, 0x161, 0xA8], lit ''[ALERT]''),
     ([0x11F, 0x178, 0x201C, 0x2C6], lit ''[INCREASING]''),
     ([0x11F, 0x178, 0x201C, 0x2030], lit ''[DECREASING]''),
     ([0x11F, 0x178, 0x201C, 0x160], lit ''[DATA]''),
     ([0x11F, 0x178, 0x201C, 0x2039], lit ''[REPORT]''),
     ([0x11F, 0x178, 0x201C, 0x201E], lit ''[DOCUMENT]''),
     ([0x11F, 0x178, 0x201D, 0xA7], lit ''[MAINTENANCE]''),
     ([0xE2, 0x161, 0x2122, 0xEF, 0xB8], lit ''[SETTINGS]''),
     ([0x11F, 0x178, 0x2019, 0xA1], lit ''[TIP]''),
     ([0x11F, 0x178, 0xAF], lit ''[TARGET]''),
     ([0x11F, 0x178, 0xAD], lit ''[FACTORY]''),
     ([0xE2, 0xB0], lit ''[TIME]''),
     ([0x11F, 0x178, 0x201D, 0x201E], lit ''[PROCESS]''),
     ([0x11F, 0x178, 0x201C, 0xA6], lit ''[PACKAGE]''),
     ([0xE2, 0xAD], lit ''[STAR]''),
     ([0x11F, 0x178, 0x2019, 0xAF], lit ''[100%]''),
     ([0x11F, 0x178, 0x2030], lit ''[SUCCESS]''),
     ([0x11F, 0x178, 0x201D], lit ''[SEARCH]'')]"

text \<open>The character class of \<open>emoji_pattern\<close>, range by range as in the source.\<close>

definition in_emoji_pattern :: "nat \<Rightarrow> bool" where
  "in_emoji_pattern c \<longleftrightarrow>
     (0x1F600 \<le> c \<and> c \<le> 0x1F64F) \<or>
     (0x1F300 \<le> c \<and> c \<le> 0x1F5FF) \<or>
     (0x1F680 \<le> c \<and> c \<le> 0x1F6FF) \<or>
     (0x1F1E0 \<le> c \<and> c \<le> 0x1F1FF) \<or>
     (0x2500 \<le> c \<and> c \<le> 0x2BEF) \<or>
     (0x2702 \<le> c \<and> c \<le> 0x27B0) \<or>
     (0x2702 \<le> c \<and> c \<le> 0x27B0) \<or>
     (0x24C2 \<le> c \<and> c \<le> 0x1F251) \<or>
     (0x1F926 \<le> c \<and> c \<le> 0x1F937) \<or>
     (0x10000 \<le> c \<and> c \<le> 0x10FFFF) \<or>
     (0x2640 \<le> c \<and> c \<le> 0x2642) \<or>
     (0x2600 \<le> c \<and> c \<le> 0x2B55) \<or>
     c = 0x200D \<or> c = 0x23CF \<or> c = 0x23E9 \<or> c = 0x231A \<or> c = 0xFE0F \<or> c = 0x3030"

text \<open>
  \<open>clean_emojis_from_text\<close>: an empty text is returned as it is; otherwise every key
  of the table is replaced in turn, and then \<open>emoji_pattern.sub('', ...)\<close> drops every
  character of the class.
\<close>

definition clean_emojis_from_text :: "pystr \<Rightarrow> pystr" where
  "clean_emojis_from_text text =
     (if text = [] then text
      else filter (\<lambda>c. \<not> in_emoji_pattern c)
             (foldl (\<lambda>cleaned_text (emoji, replacement). str_replace cleaned_text emoji replacement)
                text emoji_replacements))"

text \<open>
  \<open>clean_report_content\<close>: a dict keeps its keys and has its values cleaned, a list
  has its items cleaned, a string is cleaned, anything else is returned unchanged.
  Inside a dict the source tests the value's type before it recurses (string: clean the
  text; dict or list: recurse; otherwise keep); that is the recursive call on the value.
\<close>

primrec clean_report_content :: "pyval \<Rightarrow> pyval" where
  "clean_report_content PNone = PNone"
| "clean_report_content (PBool b) = PBool b"
| "clean_report_content (PInt i) = PInt i"
| "clean_report_content (PFloat x) = PFloat x"
| "clean_report_content (PStr s) = PStr (clean_emojis_from_text s)"
| "clean_report_content (PList xs) = PList (map clean_report_content xs)"
| "clean_report_content (PDict kvs) = PDict (map (map_prod id clean_report_content) kvs)"

section \<open>llm\_integration/gemini\_client.py\<close>

text \<open>
  The client: \<open>client\<close> and \<open>model\<close> are \<open>None\<close> or set; \<open>model_name\<close> may be
  missing (\<open>getattr\<close> then gives the default).
\<close>

record gemini_client =
  client_set :: bool
  model_set :: bool
  model_name :: "pystr option"

definition is_available :: "gemini_client \<Rightarrow> bool" where
  "is_available self \<longleftrightarrow> client_set self \<and> model_set self"

text \<open>
  What lies outside the client is a parameter: \<open>generate_content k\<close> is the outcome of the
  \<open>k\<close>-th call of \<open>self.model.generate_content\<close> (the response text, or the exception
  raised), \<open>build_prompt compact\<close> the outcome of building \<open>full_prompt\<close> in the given
  mode, \<open>clean_and_format\<close> the text clean-up, \<open>timestamp\<close> the formatted current time
  and \<open>title_of\<close> the title-casing of the report type.
\<close>

record gemini_env =
  generate_content :: "nat \<Rightarrow> pyexc + pystr"
  build_prompt :: "bool \<Rightarrow> pyexc + pystr"
  clean_and_format :: "pystr \<Rightarrow> pystr"
  timestamp :: pystr
  title_of :: "pystr \<Rightarrow> pystr"

text \<open>\<open>_generate_fallback_content\<close>: a fixed text around the report type and the time.\<close>

definition generate_fallback_content :: "gemini_env \<Rightarrow> pystr \<Rightarrow> pystr" where
  "generate_fallback_content env report_type =
     str_join [10]
      [lit ''# '' @ title_of env (str_replace report_type (lit ''_'') (lit '' '')) @ lit '' Report'',
       [],
       lit ''**Generated:** '' @ timestamp env,
       lit ''**Status:** Fallback Mode - Gemini API Unavailable'',
       [],
       lit ''## Executive Summary'',
       lit ''This report was generated in fallback mode due to Gemini API service unavailability.'',
       [],
       lit ''## Current Status'',
       lit ''- System Status: Monitoring'',
       lit ''- Data Collection: Active'',
       lit ''- Analysis: Manual review recommended'',
       [],
       lit ''## Recommendations'',
       lit ''- Verify Gemini API service connectivity'',
       lit ''- Check API key configuration'',
       lit ''- Perform manual analysis'',
       lit ''- Contact system administrator'',
       [],
       lit ''## Compliance Status'',
       lit ''- Documentation: Complete'',
       lit ''- Audit Trail: Maintained'',
       lit ''- Manual verification required'',
       [],
       lit ''*This is an automated fallback response. Manual review recommended.*'']"

text \<open>The result dictionaries of \<open>generate_comprehensive_report\<close>.\<close>

definition error_result :: "gemini_env \<Rightarrow> pystr \<Rightarrow> pystr \<Rightarrow> pyval" where
  "error_result env msg report_type =
     PDict [(lit ''status'', PStr (lit ''error'')),
            (lit ''error'', PStr msg),
            (lit ''content'', PStr (generate_fallback_content env report_type))]"

definition success_result :: "gemini_client \<Rightarrow> gemini_env \<Rightarrow> pystr \<Rightarrow> pystr \<Rightarrow> nat \<Rightarrow> pyval" where
  "success_result self env full_prompt content attempt =
     PDict [(lit ''status'', PStr (lit ''success'')),
            (lit ''content'', PStr (clean_and_format env content)),
            (lit ''model_used'',
               PStr (case model_name self of Some m \<Rightarrow> m | None \<Rightarrow> lit ''gemini-2.0-flash-exp'')),
            (lit ''tokens_used'', PInt (int ((length full_prompt + length content) div 4))),
            (lit ''attempt'', PInt (int attempt + 1))]"

text \<open>The test for a rate-limit error on \<open>error_str = str(e)\<close>.\<close>

definition is_rate_limit :: "pystr \<Rightarrow> bool" where
  "is_rate_limit error_str \<longleftrightarrow>
     str_contains (lit ''429'') error_str \<or> str_contains (lit ''quota'') (str_lower error_str)"

text \<open>
  The state threaded through a call is the number of calls of \<open>generate_content\<close> made
  so far and the seconds slept so far. A call ends in \<open>Returns v\<close> (\<open>v\<close> is \<open>PNone\<close>
  when the function falls off its end) or in \<open>Raises e\<close>, an exception that leaves it.

  \<open>generate_comprehensive_report\<close> follows the source: unavailable client; building the
  prompt inside the outer \<open>try\<close>; the loop \<open>for attempt in range(max_retries)\<close> with
  \<open>max_retries = 3\<close> and \<open>base_delay = 15\<close>, here \<open>attempt_loop\<close>. In the loop a
  rate-limit error sleeps and continues on the first two attempts; on the last attempt
  it returns the recursive call in compact mode when not yet in compact mode, and else
  leaves the loop by \<open>break\<close>; any other error leaves the loop by \<open>break\<close>. After the
  loop the \<open>try\<close> block and the function end with no \<open>return\<close>: the result is \<open>None\<close>.
  An exception of the recursive call is raised inside the outer \<open>try\<close>, whose handler
  turns it into the error result when it derives from \<open>Exception\<close>.
\<close>

datatype outcome = Returns pyval | Raises pyexc

function generate_comprehensive_report ::
    "gemini_client \<Rightarrow> gemini_env \<Rightarrow> pystr \<Rightarrow> bool \<Rightarrow> nat \<times> nat \<Rightarrow> outcome \<times> nat \<times> nat"
  and attempt_loop ::
    "gemini_client \<Rightarrow> gemini_env \<Rightarrow> pystr \<Rightarrow> bool \<Rightarrow> pystr \<Rightarrow> nat \<Rightarrow> nat \<times> nat \<Rightarrow> outcome \<times> nat \<times> nat"
where
  "generate_comprehensive_report self env report_type use_compact_mode st =
     (if \<not> is_available self
      then (Returns (error_result env (lit ''Gemini client not available'') report_type), st)
      else case build_prompt env use_compact_mode of
        Inl e \<Rightarrow>
          (if is_Exception e then (Returns (error_result env (exc_str e) report_type), st)
           else (Raises e, st))
      | Inr full_prompt \<Rightarrow>
          (case attempt_loop self env report_type use_compact_mode full_prompt 0 st of
             (Raises e, st') \<Rightarrow>
               (if is_Exception e then (Returns (error_result env (exc_str e) report_type), st')
                else (Raises e, st'))
           | r \<Rightarrow> r))"
| "attempt_loop self env report_type use_compact_mode full_prompt attempt (calls, slept) =
     (if attempt \<ge> 3 then (Returns PNone, calls, slept)
      else case generate_content env calls of
        Inr content \<Rightarrow>
          (Returns (success_result self env full_prompt content attempt), Suc calls, slept)
      | Inl e \<Rightarrow>
          (if \<not> is_Exception e then (Raises e, Suc calls, slept)
           else if is_rate_limit (exc_str e) then
             (if attempt < 2
              then attempt_loop self env report_type use_compact_mode full_prompt (Suc attempt)
                     (Suc calls, slept + 15 * 2 ^ attempt)
              else if \<not> use_compact_mode \<and> attempt = 2
              then generate_comprehensive_report self env report_type True (Suc calls, slept)
              else (Returns PNone, Suc calls, slept))
           else (Returns PNone, Suc calls, slept)))"
  by pat_completeness auto
termination
  by (relation "measure (\<lambda>x. case x of
          Inl (self, env, rt, cm, st) \<Rightarrow> (if cm then 0 else 5) + 4
        | Inr (self, env, rt, cm, fp, attempt, st) \<Rightarrow> (if cm then 0 else 5) + (3 - attempt))")
     auto

section \<open>knowledge\_base/knowledge\_manager.py\<close>

text \<open>
  A stored document of the vector index, and a collection as the list of its documents.
  The index keeps one document per id.
\<close>

record document =
  doc_id :: pystr
  doc_embedding :: "rat list"
  doc_text :: pystr
  doc_metadata :: pydict

type_synonym collection = "document list"

text \<open>
  \<open>collection.query\<close> returns, for the one query embedding, lists of documents,
  metadata and distances (\<open>results['documents'][0]\<close> and so on); \<open>None\<close> for the
  outer list of documents is the empty list here.
\<close>

record query_results =
  documents :: "pystr list list"
  metadatas :: "pydict list list"
  distances :: "rat list list"

text \<open>
  The manager: \<open>embedding_model\<close> and \<open>client\<close> are \<open>None\<close> or set, \<open>collections\<close>
  maps a collection's name to the collection.
\<close>

record kb_manager =
  embedding_model_set :: bool
  kb_client_set :: bool
  collections :: "(pystr \<times> collection) list"

text \<open>
  The collaborators are parameters: \<open>encode\<close> is the embedding model, \<open>query\<close> the
  nearest-neighbour search of the index, \<open>now_iso\<close> and \<open>now_id\<close> the current time as
  \<open>isoformat()\<close> and as the id suffix, \<open>cutoff_iso days\<close> the ISO string of
  \<open>datetime.now() - timedelta(days=days)\<close> (which raises out of range),
  \<open>format_data_as_text\<close> the flattening of a data dictionary and \<open>str_len\<close> the length
  of its \<open>str\<close>.
\<close>

record kb_env =
  encode :: "pystr \<Rightarrow> pyexc + rat list"
  query :: "collection \<Rightarrow> rat list \<Rightarrow> int \<Rightarrow> pyexc + query_results"
  now_iso :: pystr
  now_id :: pystr
  cutoff_iso :: "int \<Rightarrow> pyexc + pystr"
  format_data_as_text :: "pydict \<Rightarrow> pystr"
  str_len :: "pydict \<Rightarrow> nat"

text \<open>\<open>collection.add\<close> of one document, inside the manager's dictionary of collections.\<close>

definition add_to_collection :: "kb_manager \<Rightarrow> pystr \<Rightarrow> document \<Rightarrow> pyexc + kb_manager" where
  "add_to_collection self name d =
     (case map_of (collections self) name of
        None \<Rightarrow> Inl (PyExc True (lit ''KeyError''))
      | Some col \<Rightarrow>
          Inr (self\<lparr>collections :=
                 map (\<lambda>(n, c). if n = name then (n, c @ [d]) else (n, c)) (collections self)\<rparr>))"

text \<open>\<open>add_historical_data\<close> and \<open>add_documentation\<close> return the flag and the manager.\<close>

definition add_historical_data ::
    "kb_env \<Rightarrow> kb_manager \<Rightarrow> pystr \<Rightarrow> pydict \<Rightarrow> pyexc + bool \<times> kb_manager" where
  "add_historical_data env self data_type data =
     (if \<not> embedding_model_set self \<or> \<not> kb_client_set self then Inr (False, self)
      else except_Exception
        (let text_content = format_data_as_text env data in
         if text_content = [] then Inr (False, self)
         else case encode env text_content of
           Inl e \<Rightarrow> Inl e
         | Inr embedding \<Rightarrow>
             (case add_to_collection self (lit ''historical_data'')
                     \<lparr>doc_id = data_type @ lit ''_'' @ now_id env,
                      doc_embedding = embedding,
                      doc_text = text_content,
                      doc_metadata =
                        [(lit ''type'', PStr data_type),
                         (lit ''timestamp'',
                            dict_get data (lit ''collection_timestamp'') (PStr (now_iso env))),
                         (lit ''source'', PStr (lit ''real_time_collection'')),
                         (lit ''data_size'', PInt (int (str_len env data)))]\<rparr> of
                Inl e \<Rightarrow> Inl e
              | Inr self' \<Rightarrow> Inr (True, self')))
        (False, self))"

definition add_documentation ::
    "kb_env \<Rightarrow> kb_manager \<Rightarrow> pystr \<Rightarrow> pystr \<Rightarrow> pydict \<Rightarrow> pyexc + bool \<times> kb_manager" where
  "add_documentation env self doc_type content metadata =
     (if \<not> embedding_model_set self \<or> \<not> kb_client_set self then Inr (False, self)
      else except_Exception
        (case encode env content of
           Inl e \<Rightarrow> Inl e
         | Inr embedding \<Rightarrow>
             (case add_to_collection self (lit ''documentation'')
                     \<lparr>doc_id = doc_type @ lit ''_'' @ now_id env,
                      doc_embedding = embedding,
                      doc_text = content,
                      doc_metadata =
                        foldl (\<lambda>d (k, v). dict_set d k v)
                          [(lit ''type'', PStr doc_type), (lit ''timestamp'', PStr (now_iso env))]
                          metadata\<rparr> of
                Inl e \<Rightarrow> Inl e
              | Inr self' \<Rightarrow> Inr (True, self')))
        (False, self))"

text \<open>One entry of the list that \<open>search_relevant_context\<close> returns.\<close>

record context_item =
  content :: pystr
  metadata :: pydict
  distance :: rat
  relevance_score :: rat

text \<open>\<open>zip3\<close>: \<open>zip\<close> of three lists, as long as the shortest.\<close>

fun zip3 :: "'a list \<Rightarrow> 'b list \<Rightarrow> 'c list \<Rightarrow> ('a \<times> 'b \<times> 'c) list" where
  "zip3 (x # xs) (y # ys) (z # zs) = (x, y, z) # zip3 xs ys zs"
| "zip3 _ _ _ = []"

text \<open>\<open>first_of xs\<close>: \<open>xs[0]\<close>, which raises \<open>IndexError\<close> on an empty list.\<close>

definition first_of :: "'a list \<Rightarrow> pyexc + 'a" where
  "first_of xs = (case xs of [] \<Rightarrow> Inl (PyExc True (lit ''IndexError'')) | x # _ \<Rightarrow> Inr x)"

text \<open>
  \<open>search_relevant_context\<close>. \<open>list.sort(key=...)\<close> is a stable sort by the key, as
  \<open>sort_key\<close> is.
\<close>

definition search_relevant_context ::
    "kb_env \<Rightarrow> kb_manager \<Rightarrow> pystr \<Rightarrow> pystr \<Rightarrow> int \<Rightarrow> pyexc + context_item list" where
  "search_relevant_context env self q collection n_results =
     (if \<not> embedding_model_set self \<or> \<not> kb_client_set self
         \<or> map_of (collections self) collection = None then Inr []
      else except_Exception
        (case encode env q of
           Inl e \<Rightarrow> Inl e
         | Inr query_embedding \<Rightarrow>
             (case query env (the (map_of (collections self) collection)) query_embedding n_results of
                Inl e \<Rightarrow> Inl e
              | Inr results \<Rightarrow>
                  if documents results = [] \<or> hd (documents results) = [] then Inr []
                  else
                    (case first_of (metadatas results) of
                       Inl e \<Rightarrow> Inl e
                     | Inr metas \<Rightarrow>
                         (case first_of (distances results) of
                            Inl e \<Rightarrow> Inl e
                          | Inr dists \<Rightarrow>
                              Inr (sort_key distance
                                    (map (\<lambda>(doc, meta, dist).
                                            \<lparr>content = doc, metadata = meta, distance = dist,
                                             relevance_score = 1 - dist\<rparr>)
                                       (zip3 (hd (documents results)) metas dists)))))))
        [])"

text \<open>
  \<open>cleanup_old_embeddings\<close>. A document's timestamp is \<open>metadata.get('timestamp', '')\<close>,
  here \<open>doc_timestamp\<close>;
  \<open><\<close> between it and the cutoff string is the comparison of two strings and raises
  \<open>TypeError\<close> when the stored value is not a string. \<open>old_ids_of\<close> is the inner loop
  over one collection, \<open>collection_delete\<close> is \<open>collection.delete(ids=...)\<close>, and
  \<open>cleanup_collections\<close> the loop over the collections: an exception ends it, and what
  was deleted before stays deleted. The function returns \<open>None\<close>; the model returns
  the manager.
\<close>

definition timestamp_lt :: "pyval \<Rightarrow> pystr \<Rightarrow> pyexc + bool" where
  "timestamp_lt doc_timestamp cutoff_timestamp =
     (case doc_timestamp of PStr s \<Rightarrow> Inr (s < cutoff_timestamp) | _ \<Rightarrow> Inl TypeError)"

definition doc_timestamp :: "document \<Rightarrow> pyval" where
  "doc_timestamp d = dict_get (doc_metadata d) (lit ''timestamp'') (PStr [])"

fun old_ids_of :: "pystr \<Rightarrow> collection \<Rightarrow> pyexc + pystr list" where
  "old_ids_of cutoff_timestamp [] = Inr []"
| "old_ids_of cutoff_timestamp (d # ds) =
     (case timestamp_lt (doc_timestamp d) cutoff_timestamp of
        Inl e \<Rightarrow> Inl e
      | Inr old \<Rightarrow>
          (case old_ids_of cutoff_timestamp ds of
             Inl e \<Rightarrow> Inl e
           | Inr ids \<Rightarrow> Inr (if old then doc_id d # ids else ids)))"

definition collection_delete :: "pystr list \<Rightarrow> collection \<Rightarrow> collection" where
  "collection_delete ids col = filter (\<lambda>d. doc_id d \<notin> set ids) col"

fun cleanup_collections ::
    "pystr \<Rightarrow> (pystr \<times> collection) list \<Rightarrow> (pystr \<times> collection) list \<times> pyexc option" where
  "cleanup_collections cutoff_timestamp [] = ([], None)"
| "cleanup_collections cutoff_timestamp ((name, col) # rest) =
     (case old_ids_of cutoff_timestamp col of
        Inl e \<Rightarrow> ((name, col) # rest, Some e)
      | Inr old_ids \<Rightarrow>
          (let (rest', r) = cleanup_collections cutoff_timestamp rest
           in ((name, if old_ids \<noteq> [] then collection_delete old_ids col else col) # rest', r)))"

definition cleanup_old_embeddings :: "kb_env \<Rightarrow> kb_manager \<Rightarrow> int \<Rightarrow> pyexc + kb_manager" where
  "cleanup_old_embeddings env self days_to_keep =
     (if \<not> kb_client_set self then Inr self
      else case cutoff_iso env days_to_keep of
        Inl e \<Rightarrow> Inl e
      | Inr cutoff_timestamp \<Rightarrow>
          (case cleanup_collections cutoff_timestamp (collections self) of
             (cols, None) \<Rightarrow> Inr (self\<lparr>collections := cols\<rparr>)
           | (cols, Some e) \<Rightarrow>
               if is_Exception e then Inr (self\<lparr>collections := cols\<rparr>) else Inl e))"

text \<open>
  For the statements about \<open>cleanup_old_embeddings\<close>: \<open>lexically_older d c\<close> says that
  the stored timestamp string of \<open>d\<close> is smaller than \<open>c\<close> in the order of strings;
  \<open>string_timestamps\<close> says that every stored timestamp of a collection is a string (or
  missing); \<open>well_kept\<close> adds that the ids of each collection are distinct, as the index
  keeps them.
\<close>

definition lexically_older :: "document \<Rightarrow> pystr \<Rightarrow> bool" where
  "lexically_older d cutoff_timestamp =
     (case doc_timestamp d of PStr s \<Rightarrow> s < cutoff_timestamp | _ \<Rightarrow> False)"

definition string_timestamps :: "collection \<Rightarrow> bool" where
  "string_timestamps col =
     list_all (\<lambda>d. case doc_timestamp d of PStr s \<Rightarrow> True | _ \<Rightarrow> False) col"

definition well_kept :: "(pystr \<times> collection) list \<Rightarrow> bool" where
  "well_kept cols =
     list_all (\<lambda>(name, col). distinct (map doc_id col) \<and> string_timestamps col) cols"

section \<open>data\_collectors/classification\_collector.py\<close>

text \<open>
  The collector. The state that \<open>collect_data\<close> changes is the history
  \<open>recent_classifications\<close>, bounded by \<open>max_history\<close> (100 when constructed).
\<close>

record classification_collector =
  defect_endpoint :: pystr
  quality_endpoint :: pystr
  recent_classifications :: "pyval list"
  max_history :: nat

text \<open>
  What one \<open>session.get(endpoint)\<close> leads to: a response with its status and the
  outcome of \<open>response.json()\<close> (the decoded body, or the exception of a body that is
  not JSON), or an exception raised by the transport (connection error, timeout).
\<close>

datatype http_outcome = Response int "pyexc + pyval" | TransportError pyexc

definition api_error :: "pystr \<Rightarrow> pystr \<Rightarrow> pyval" where
  "api_error msg endpoint =
     PDict [(lit ''api_status'', PStr (lit ''error'')),
            (lit ''error'', PStr msg),
            (lit ''endpoint'', PStr endpoint)]"

text \<open>
  \<open>_collect_defect_data\<close> and \<open>_collect_quality_data\<close>: status 200 maps the fields of
  the body, with defaults, \<open>data.get\<close> raising \<open>AttributeError\<close> when the body is not a
  JSON object; another status gives the error entry \<open>HTTP <status>\<close>; every exception
  deriving from \<open>Exception\<close> is caught and gives the error entry with its text.
\<close>

definition collect_defect_data :: "classification_collector \<Rightarrow> http_outcome \<Rightarrow> pyexc + pyval" where
  "collect_defect_data self outcome =
     except_Exception_with
       (case outcome of
          TransportError e \<Rightarrow> Inl e
        | Response status body \<Rightarrow>
            if status = 200 then
              and_then body (\<lambda>data.
              and_then (py_get data (lit ''defect_probability'') (PFloat 0)) (\<lambda>defect_probability.
              and_then (py_get data (lit ''risk_level'') (PStr (lit ''unknown''))) (\<lambda>risk_level.
              and_then (py_get data (lit ''confidence'') (PFloat 0)) (\<lambda>confidence.
              and_then (py_get data (lit ''model_info'') (PDict [])) (\<lambda>model_info.
              and_then (py_get data (lit ''features_used'') (PList [])) (\<lambda>features_used.
                Inr (PDict [(lit ''api_status'', PStr (lit ''success'')),
                            (lit ''defect_probability'', defect_probability),
                            (lit ''risk_level'', risk_level),
                            (lit ''confidence'', confidence),
                            (lit ''model_info'', model_info),
                            (lit ''features_used'', features_used)])))))))
            else Inr (api_error (lit ''HTTP '' @ (if status < 0 then lit ''-'' else []) @ decimal (nat \<bar>status\<bar>))
                        (defect_endpoint self)))
       (\<lambda>e. api_error (exc_str e) (defect_endpoint self))"

definition collect_quality_data :: "classification_collector \<Rightarrow> http_outcome \<Rightarrow> pyexc + pyval" where
  "collect_quality_data self outcome =
     except_Exception_with
       (case outcome of
          TransportError e \<Rightarrow> Inl e
        | Response status body \<Rightarrow>
            if status = 200 then
              and_then body (\<lambda>data.
              and_then (py_get data (lit ''quality_class'') (PStr (lit ''unknown''))) (\<lambda>quality_class.
              and_then (py_get data (lit ''confidence'') (PFloat 0)) (\<lambda>confidence.
              and_then (py_get data (lit ''class_probabilities'') (PDict [])) (\<lambda>class_probabilities.
              and_then (py_get data (lit ''model_info'') (PDict [])) (\<lambda>model_info.
              and_then (py_get data (lit ''features_used'') (PList [])) (\<lambda>features_used.
                Inr (PDict [(lit ''api_status'', PStr (lit ''success'')),
                            (lit ''quality_class'', quality_class),
                            (lit ''confidence'', confidence),
                            (lit ''class_probabilities'', class_probabilities),
                            (lit ''model_info'', model_info),
                            (lit ''features_used'', features_used)])))))))
            else Inr (api_error (lit ''HTTP '' @ (if status < 0 then lit ''-'' else []) @ decimal (nat \<bar>status\<bar>))
                        (quality_endpoint self)))
       (\<lambda>e. api_error (exc_str e) (quality_endpoint self))"

text \<open>\<open>_add_to_history\<close>: append, then keep the last \<open>max_history\<close> records.\<close>

definition add_to_history :: "classification_collector \<Rightarrow> pyval \<Rightarrow> classification_collector" where
  "add_to_history self classification_record =
     (let appended = recent_classifications self @ [classification_record]
      in self\<lparr>recent_classifications :=
           (if length appended > max_history self
            then (if max_history self = 0 then appended
                  else drop (length appended - max_history self) appended)
            else appended)\<rparr>)"

text \<open>
  \<open>collect_data\<close>, given the current time as ISO string and the outcomes of the two
  endpoint calls; it returns the record and the collector with its new history. The
  quality endpoint is called only after the defect call has returned.
\<close>

definition collect_data ::
    "classification_collector \<Rightarrow> pystr \<Rightarrow> http_outcome \<Rightarrow> http_outcome
       \<Rightarrow> pyexc + pyval \<times> classification_collector" where
  "collect_data self now defect_outcome quality_outcome =
     (case and_then (collect_defect_data self defect_outcome) (\<lambda>defect_prediction.
           and_then (collect_quality_data self quality_outcome) (\<lambda>quality_prediction.
             Inr (PDict [(lit ''timestamp'', PStr now),
                         (lit ''defect_prediction'', defect_prediction),
                         (lit ''quality_prediction'', quality_prediction)]))) of
        Inr classification_record \<Rightarrow>
          Inr (classification_record, add_to_history self classification_record)
      | Inl e \<Rightarrow>
          if is_Exception e then
            (let error_record =
               PDict [(lit ''timestamp'', PStr now),
                      (lit ''error'', PStr (exc_str e)),
                      (lit ''defect_prediction'',
                         PDict [(lit ''api_status'', PStr (lit ''error'')), (lit ''error'', PStr (exc_str e))]),
                      (lit ''quality_prediction'',
                         PDict [(lit ''api_status'', PStr (lit ''error'')), (lit ''error'', PStr (exc_str e))])]
             in Inr (error_record, add_to_history self error_record))
          else Inl e)"

text \<open>
  \<open>_analyze_defect_predictions\<close>. Its result is one of the two early returns, the
  analysis, or the dictionary of the \<open>except\<close> handler with the error text.
\<close>

record defect_analysis =
  total_predictions :: nat
  average_defect_probability :: rat
  max_defect_probability :: rat
  min_defect_probability :: rat
  current_defect_probability :: rat
  trend :: pystr
  current_risk_level :: pystr
  risk_distribution :: "(pyval \<times> nat) list"
  confidence_avg :: rat

datatype analysis_result =
    NoSuccessfulData
  | NoValidProbabilities
  | Analysis defect_analysis
  | AnalysisError pystr

text \<open>
  The first comprehension: the \<open>defect_prediction\<close> of every classification whose
  \<open>c.get('defect_prediction', {}).get('api_status')\<close> is \<open>'success'\<close>.
\<close>

fun successful_defect_data :: "pyval list \<Rightarrow> pyexc + pyval list" where
  "successful_defect_data [] = Inr []"
| "successful_defect_data (c # cs) =
     and_then (py_get c (lit ''defect_prediction'') (PDict [])) (\<lambda>dp.
     and_then (py_get dp (lit ''api_status'') PNone) (\<lambda>api_status.
       if api_status = PStr (lit ''success'')
       then and_then (py_getitem c (lit ''defect_prediction'')) (\<lambda>d.
            and_then (successful_defect_data cs) (\<lambda>ds. Inr (d # ds)))
       else successful_defect_data cs))"

text \<open>The second comprehension: the numeric \<open>defect_probability\<close> values.\<close>

fun defect_probs_of :: "pyval list \<Rightarrow> pyexc + rat list" where
  "defect_probs_of [] = Inr []"
| "defect_probs_of (d # ds) =
     and_then (py_get d (lit ''defect_probability'') PNone) (\<lambda>p.
       if is_numeric p
       then and_then (py_get d (lit ''defect_probability'') (PInt 0)) (\<lambda>p'.
            and_then (defect_probs_of ds) (\<lambda>ps. Inr (num_of p' # ps)))
       else defect_probs_of ds)"

text \<open>
  The trend: \<open>defect_probs[-3:]\<close> is \<open>drop (length ps - 3) ps\<close>, \<open>defect_probs[:3]\<close> is
  \<open>take 3 ps\<close>, and both sums are divided by \<open>min(3, len(defect_probs))\<close>.
\<close>

definition determine_trend :: "rat list \<Rightarrow> pystr" where
  "determine_trend defect_probs =
     (if length defect_probs \<ge> 2 then
        (let recent_avg = sum_list (drop (length defect_probs - 3) defect_probs)
                            / of_nat (min 3 (length defect_probs));
             earlier_avg = sum_list (take 3 defect_probs) / of_nat (min 3 (length defect_probs))
         in if recent_avg > earlier_avg * (11 / 10) then lit ''increasing''
            else if recent_avg < earlier_avg * (9 / 10) then lit ''decreasing''
            else lit ''stable'')
      else lit ''insufficient_data'')"

text \<open>
  The risk distribution counts the \<open>risk_level\<close> values; a list or a dict cannot be a
  key (\<open>TypeError\<close>). Two keys are the same when they are equal, numbers by value.
\<close>

definition py_eq :: "pyval \<Rightarrow> pyval \<Rightarrow> bool" where
  "py_eq a b = (if is_numeric a \<and> is_numeric b then num_of a = num_of b else a = b)"

fun is_hashable :: "pyval \<Rightarrow> bool" where
  "is_hashable (PList xs) = False"
| "is_hashable (PDict d) = False"
| "is_hashable _ = True"

fun count_key :: "(pyval \<times> nat) list \<Rightarrow> pyval \<Rightarrow> (pyval \<times> nat) list" where
  "count_key [] k = [(k, 1)]"
| "count_key ((k', n) # rest) k =
     (if py_eq k' k then (k', n + 1) # rest else (k', n) # count_key rest k)"

fun risk_distribution_of :: "(pyval \<times> nat) list \<Rightarrow> pyval list \<Rightarrow> pyexc + (pyval \<times> nat) list" where
  "risk_distribution_of acc [] = Inr acc"
| "risk_distribution_of acc (d # ds) =
     and_then (py_get d (lit ''risk_level'') (PStr (lit ''unknown''))) (\<lambda>risk.
       if is_hashable risk then risk_distribution_of (count_key acc risk) ds else Inl TypeError)"

text \<open>\<open>sum(d.get('confidence', 0) for d in ...)\<close>: adding a value that is no number
  raises \<open>TypeError\<close>.\<close>

fun sum_confidence :: "rat \<Rightarrow> pyval list \<Rightarrow> pyexc + rat" where
  "sum_confidence acc [] = Inr acc"
| "sum_confidence acc (d # ds) =
     and_then (py_get d (lit ''confidence'') (PInt 0)) (\<lambda>c.
       if is_numeric c then sum_confidence (acc + num_of c) ds else Inl TypeError)"

definition current_risk_of :: "rat \<Rightarrow> pystr" where
  "current_risk_of current_defect_prob =
     (if current_defect_prob > 7 / 10 then lit ''critical''
      else if current_defect_prob > 5 / 10 then lit ''high''
      else if current_defect_prob > 3 / 10 then lit ''medium''
      else lit ''low'')"

definition analyze_defect_predictions :: "pyval list \<Rightarrow> pyexc + analysis_result" where
  "analyze_defect_predictions classifications =
     except_Exception_with
       (and_then (successful_defect_data classifications) (\<lambda>successful.
          if successful = [] then Inr NoSuccessfulData
          else and_then (defect_probs_of successful) (\<lambda>defect_probs.
            if defect_probs = [] then Inr NoValidProbabilities
            else and_then (risk_distribution_of [] successful) (\<lambda>distribution.
                 and_then (sum_confidence 0 successful) (\<lambda>confidence_sum.
                   Inr (Analysis
                     \<lparr>total_predictions = length successful,
                      average_defect_probability = sum_list defect_probs / of_nat (length defect_probs),
                      max_defect_probability = fold max (tl defect_probs) (hd defect_probs),
                      min_defect_probability = fold min (tl defect_probs) (hd defect_probs),
                      current_defect_probability = last defect_probs,
                      trend = determine_trend defect_probs,
                      current_risk_level = current_risk_of (last defect_probs),
                      risk_distribution = distribution,
                      confidence_avg = confidence_sum / of_nat (length successful)\<rparr>))))))
       (\<lambda>e. AnalysisError (exc_str e))"

text \<open>
  For the statements about the trend: the average of a list, and the numeric
  probabilities that \<open>_analyze_defect_predictions\<close> extracts from the classifications
  (\<open>None\<close> when extracting them raises).
\<close>

definition average :: "rat list \<Rightarrow> rat" where
  "average xs = sum_list xs / of_nat (length xs)"

definition last_three :: "rat list \<Rightarrow> rat list" where
  "last_three xs = rev (take 3 (rev xs))"

definition first_three :: "rat list \<Rightarrow> rat list" where
  "first_three xs = take 3 xs"

definition extracted_probs :: "pyval list \<Rightarrow> rat list option" where
  "extracted_probs classifications =
     (case and_then (successful_defect_data classifications) defect_probs_of of
        Inr ps \<Rightarrow> Some ps | Inl e \<Rightarrow> None)"

text \<open>
  For the statements about \<open>collect_data\<close>: \<open>endpoint_failure\<close> is a failed endpoint
  call (a status other than 200, an exception of the transport, or a body that is not
  JSON or not a JSON object), \<open>endpoint_answers\<close> is any outcome of the call that
  is no exception outside \<open>Exception\<close> (such as a cancellation), and \<open>error_entry\<close> is
  a prediction entry with the status \<open>error\<close> and an error string.
\<close>

definition endpoint_failure :: "http_outcome \<Rightarrow> bool" where
  "endpoint_failure outcome =
     (case outcome of
        TransportError e \<Rightarrow> is_Exception e
      | Response status body \<Rightarrow>
          status \<noteq> 200 \<or>
          (case body of Inl e \<Rightarrow> is_Exception e
                      | Inr data \<Rightarrow> (case data of PDict d \<Rightarrow> False | _ \<Rightarrow> True)))"

definition endpoint_answers :: "http_outcome \<Rightarrow> bool" where
  "endpoint_answers outcome =
     (case outcome of
        TransportError e \<Rightarrow> is_Exception e
      | Response status body \<Rightarrow>
          status \<noteq> 200 \<or> (case body of Inl e \<Rightarrow> is_Exception e | Inr data \<Rightarrow> True))"

definition error_entry :: "pyval \<Rightarrow> bool" where
  "error_entry v =
     (case v of
        PDict d \<Rightarrow>
          map_of d (lit ''api_status'') = Some (PStr (lit ''error'')) \<and>
          (case map_of d (lit ''error'') of Some (PStr msg) \<Rightarrow> True | _ \<Rightarrow> False)
      | _ \<Rightarrow> False)"

section \<open>report\_generators/base\_generator.py\<close>

text \<open>
  \<open>extract_key_metrics\<close>. \<open>usable_source cd k\<close> is the test
  \<open>k in collected_data and 'error' not in collected_data[k]\<close>, giving the source's
  value when it holds. The four blocks add their fields to \<open>metrics\<close>; then the risk
  level is set from \<open>metrics.get('defect_probability', 0)\<close>. An exception anywhere
  replaces the metrics by \<open>{'error': str(e)}\<close>.
\<close>

definition usable_source :: "pydict \<Rightarrow> pystr \<Rightarrow> pyexc + pyval option" where
  "usable_source collected_data k =
     (case map_of collected_data k of
        None \<Rightarrow> Inr None
      | Some v \<Rightarrow> and_then (py_in (lit ''error'') v) (\<lambda>has_error.
                    Inr (if has_error then None else Some v)))"

definition classification_metrics :: "pydict \<Rightarrow> pydict \<Rightarrow> pyexc + pydict" where
  "classification_metrics collected_data metrics =
     and_then (usable_source collected_data (lit ''classification'')) (\<lambda>src.
       case src of
         None \<Rightarrow> Inr metrics
       | Some classification_data \<Rightarrow>
           and_then (py_get classification_data (lit ''defect_probability'') (PStr (lit ''N/A''))) (\<lambda>p.
           and_then (py_get classification_data (lit ''risk_level'') (PStr (lit ''N/A''))) (\<lambda>r.
           and_then (py_get classification_data (lit ''confidence'') (PStr (lit ''N/A''))) (\<lambda>c.
             Inr (dict_set (dict_set (dict_set metrics (lit ''defect_probability'') p)
                    (lit ''risk_level'') r) (lit ''confidence_score'') c)))))"

definition quality_metrics :: "pydict \<Rightarrow> pydict \<Rightarrow> pyexc + pydict" where
  "quality_metrics collected_data metrics =
     and_then (usable_source collected_data (lit ''quality'')) (\<lambda>src.
       case src of
         None \<Rightarrow> Inr metrics
       | Some quality_data \<Rightarrow>
           and_then (py_get quality_data (lit ''quality_class'') (PStr (lit ''N/A''))) (\<lambda>q.
           and_then (py_get quality_data (lit ''confidence'') (PStr (lit ''N/A''))) (\<lambda>c.
             Inr (dict_set (dict_set metrics (lit ''quality_class'') q)
                    (lit ''quality_confidence'') c))))"

definition forecasting_metrics :: "pydict \<Rightarrow> pydict \<Rightarrow> pyexc + pydict" where
  "forecasting_metrics collected_data metrics =
     and_then (usable_source collected_data (lit ''forecasting'')) (\<lambda>src.
       case src of
         None \<Rightarrow> Inr metrics
       | Some forecasting_data \<Rightarrow>
           and_then (py_get forecasting_data (lit ''forecast_horizon'') (PStr (lit ''N/A''))) (\<lambda>h.
           and_then (py_get forecasting_data (lit ''forecast'') (PList [])) (\<lambda>f.
           and_then (py_len f) (\<lambda>n.
             Inr (dict_set (dict_set metrics (lit ''forecast_horizon'') h)
                    (lit ''forecast_points'') (PInt (int n)))))))"

definition rl_metrics :: "pydict \<Rightarrow> pydict \<Rightarrow> pyexc + pydict" where
  "rl_metrics collected_data metrics =
     and_then (usable_source collected_data (lit ''rl_actions'')) (\<lambda>src.
       case src of
         None \<Rightarrow> Inr metrics
       | Some rl_data \<Rightarrow>
           and_then (py_get rl_data (lit ''recommended_actions'') (PStr (lit ''N/A''))) (\<lambda>a.
           and_then (py_get rl_data (lit ''model_type'') (PStr (lit ''N/A''))) (\<lambda>t.
             Inr (dict_set (dict_set metrics (lit ''recommended_actions'') a)
                    (lit ''model_type'') t))))"

definition risk_level_for :: "rat \<Rightarrow> pystr" where
  "risk_level_for defect_prob =
     (if defect_prob > 8 / 10 then lit ''Critical''
      else if defect_prob > 6 / 10 then lit ''High''
      else if defect_prob > 4 / 10 then lit ''Medium''
      else if defect_prob > 2 / 10 then lit ''Low''
      else lit ''Very Low'')"

definition with_risk_level :: "pydict \<Rightarrow> pydict" where
  "with_risk_level metrics =
     (let defect_prob = dict_get metrics (lit ''defect_probability'') (PInt 0)
      in if is_numeric defect_prob
         then dict_set metrics (lit ''risk_level'') (PStr (risk_level_for (num_of defect_prob)))
         else dict_set metrics (lit ''risk_level'') (PStr (lit ''Unknown'')))"

definition key_metrics_body :: "pydict \<Rightarrow> pyexc + pydict" where
  "key_metrics_body collected_data =
     and_then (classification_metrics collected_data []) (\<lambda>m1.
     and_then (quality_metrics collected_data m1) (\<lambda>m2.
     and_then (forecasting_metrics collected_data m2) (\<lambda>m3.
     and_then (rl_metrics collected_data m3) (\<lambda>m4.
       Inr (with_risk_level m4)))))"

definition extract_key_metrics :: "pydict \<Rightarrow> pyexc + pydict" where
  "extract_key_metrics collected_data =
     except_Exception_with (key_metrics_body collected_data)
       (\<lambda>e. [(lit ''error'', PStr (exc_str e))])"

text \<open>
  For the statements about \<open>extract_key_metrics\<close>: \<open>no_classification\<close> says that no
  classification source was collected (the key is missing or its value carries
  \<open>'error'\<close>), \<open>classification_without_probability\<close> that the collected classification
  is a dictionary with neither \<open>'error'\<close> nor a \<open>defect_probability\<close>.
\<close>

definition no_classification :: "pydict \<Rightarrow> bool" where
  "no_classification collected_data \<longleftrightarrow>
     usable_source collected_data (lit ''classification'') = Inr None"

definition classification_without_probability :: "pydict \<Rightarrow> bool" where
  "classification_without_probability collected_data \<longleftrightarrow>
     (case map_of collected_data (lit ''classification'') of
        Some (PDict d) \<Rightarrow> map_of d (lit ''error'') = None \<and> map_of d (lit ''defect_probability'') = None
      | _ \<Rightarrow> False)"

section \<open>report\_generators/quality\_report.py\<close>

text \<open>
  Python's formatting is a parameter: \<open>fmt_str\<close> is \<open>str\<close> of a value inside an
  f-string, \<open>fmt_3f\<close> the format \<open>.3f\<close> of a number, \<open>fmt_now\<close> the current time as
  ISO string.
\<close>

record formatting =
  fmt_str :: "pyval \<Rightarrow> pystr"
  fmt_3f :: "rat \<Rightarrow> pystr"
  fmt_now :: pystr

text \<open>
  \<open>_extract_real_metrics\<close>. \<open>successful_source cd k\<close> is the test
  \<open>collected_data.get(k) and 'error' not in collected_data[k]\<close>, giving the source's
  value when it holds.
\<close>

definition successful_source :: "pydict \<Rightarrow> pystr \<Rightarrow> pyexc + pyval option" where
  "successful_source collected_data k =
     (let v = dict_get collected_data k PNone
      in if \<not> truthy v then Inr None
         else and_then (py_in (lit ''error'') v) (\<lambda>has_error.
                Inr (if has_error then None else Some v)))"

text \<open>
  One source: when the test holds, \<open>successful_collections\<close> is incremented and the
  source's block fills its part of \<open>metrics\<close>.
\<close>

definition process_source ::
    "pydict \<Rightarrow> pystr \<Rightarrow> (pyval \<Rightarrow> pydict \<Rightarrow> pyexc + pydict) \<Rightarrow> nat \<times> pydict \<Rightarrow> pyexc + nat \<times> pydict" where
  "process_source collected_data k block st =
     and_then (successful_source collected_data k) (\<lambda>src.
       case src of
         None \<Rightarrow> Inr st
       | Some v \<Rightarrow> and_then (block v (snd st)) (\<lambda>metrics. Inr (Suc (fst st), metrics)))"

text \<open>
  The classification block. \<open>metrics["defect_rates"]\<close> is the empty dict when the
  block runs, so the assignment of one of its keys gives a dict with that key alone.
\<close>

definition process_classification :: "pyval \<Rightarrow> pydict \<Rightarrow> pyexc + pydict" where
  "process_classification class_data metrics =
     (case class_data of
        PDict d \<Rightarrow>
          (let defect_prob = dict_get d (lit ''defect_probability'') (PFloat 0);
               risk_level = dict_get d (lit ''risk_level'') (PStr (lit ''unknown''));
               metrics1 =
                 (if is_numeric defect_prob then
                    dict_set
                      (dict_set metrics (lit ''defect_rates'')
                         (PDict [(if num_of defect_prob > 6 / 10 then lit ''high_risk''
                                  else if num_of defect_prob > 3 / 10 then lit ''medium_risk''
                                  else lit ''low_risk'', PInt 1)]))
                      (lit ''total_predictions'') (PInt 1)
                  else metrics)
           in Inr (dict_set (dict_set metrics1 (lit ''defect_probability'') defect_prob)
                     (lit ''risk_classification'') risk_level))
      | _ \<Rightarrow> Inr metrics)"

definition process_quality :: "pyval \<Rightarrow> pydict \<Rightarrow> pyexc + pydict" where
  "process_quality quality_data metrics =
     (case quality_data of
        PDict d \<Rightarrow>
          (let quality_class = dict_get d (lit ''quality_class'') (PStr (lit ''unknown''));
               confidence = dict_get d (lit ''confidence'') (PFloat 0);
               class_probs = dict_get d (lit ''class_probabilities'') (PDict []);
               quality_score =
                 (if quality_class = PStr (lit ''High'') then 9 / 10
                  else if quality_class = PStr (lit ''Medium'') then 7 / 10
                  else if quality_class = PStr (lit ''Low'') then 4 / 10
                  else 0)
           in Inr (dict_set metrics (lit ''quality_scores'')
                     (PDict [(lit ''overall_score'', PFloat quality_score),
                             (lit ''batch_quality'', quality_class),
                             (lit ''quality_confidence'', confidence),
                             (lit ''class_probabilities'', class_probs)])))
      | _ \<Rightarrow> Inr metrics)"

text \<open>\<open>first_five v\<close>: the slice \<open>v[:5]\<close>, defined for a list and a string.\<close>

fun first_five :: "pyval \<Rightarrow> pyexc + pyval" where
  "first_five (PList xs) = Inr (PList (take 5 xs))"
| "first_five (PStr s) = Inr (PStr (take 5 s))"
| "first_five _ = Inl TypeError"

definition process_forecasting :: "formatting \<Rightarrow> pyval \<Rightarrow> pydict \<Rightarrow> pyexc + pydict" where
  "process_forecasting fmt forecast_data metrics =
     (case forecast_data of
        PDict d \<Rightarrow>
          (let forecast_horizon = dict_get d (lit ''forecast_horizon'') (PInt 30);
               forecast_list = dict_get d (lit ''forecast'') (PList [])
           in and_then (if truthy forecast_list then first_five forecast_list else Inr (PList []))
                (\<lambda>predicted_values.
              and_then (py_len forecast_list) (\<lambda>total_forecast_points.
                Inr (dict_set metrics (lit ''forecast_accuracy'')
                       (PDict [(lit ''prediction_horizon'',
                                  PStr (fmt_str fmt forecast_horizon @ lit '' timesteps'')),
                               (lit ''forecast_confidence'', PFloat (85 / 100)),
                               (lit ''predicted_values'', predicted_values),
                               (lit ''total_forecast_points'', PInt (int total_forecast_points)),
                               (lit ''data_source_status'',
                                  dict_get d (lit ''data_sources'') (PDict []))])))))
      | _ \<Rightarrow> Inr metrics)"

text \<open>
  The descriptions of the recommended actions: a value that differs from \<open>0.0\<close> is
  formatted with \<open>.3f\<close>, which raises for a value that is no number.
\<close>

fun action_descriptions :: "formatting \<Rightarrow> pydict \<Rightarrow> pyexc + pystr list" where
  "action_descriptions fmt [] = Inr []"
| "action_descriptions fmt ((action, v) # rest) =
     (if is_numeric v \<and> num_of v = 0 then action_descriptions fmt rest
      else if is_numeric v
      then and_then (action_descriptions fmt rest) (\<lambda>ds.
             Inr ((action @ lit '': '' @ fmt_3f fmt (num_of v)) # ds))
      else Inl (case v of PStr s \<Rightarrow> ValueError | _ \<Rightarrow> TypeError))"

definition process_rl :: "formatting \<Rightarrow> pyval \<Rightarrow> pydict \<Rightarrow> pyexc + pydict" where
  "process_rl fmt rl_data metrics =
     (case rl_data of
        PDict d \<Rightarrow>
          (let recommended_actions = dict_get d (lit ''recommended_actions'') (PDict []);
               state_summary = dict_get d (lit ''state_summary'') (PDict []);
               model_type = dict_get d (lit ''model_type'') (PStr (lit ''unknown''))
           in and_then
                (if truthy recommended_actions
                 then (case recommended_actions of
                         PDict actions \<Rightarrow> action_descriptions fmt actions
                       | _ \<Rightarrow> Inl AttributeError)
                 else Inr [])
                (\<lambda>action_description.
                   Inr (dict_set metrics (lit ''rl_performance'')
                          (PDict [(lit ''recommended_action'',
                                     PStr (if action_description \<noteq> []
                                           then str_join (lit ''; '') action_description
                                           else lit ''maintain_current_settings'')),
                                  (lit ''action_confidence'', PFloat (8 / 10)),
                                  (lit ''expected_reward'', PFloat (75 / 100)),
                                  (lit ''model_type'', model_type),
                                  (lit ''state_summary'', state_summary),
                                  (lit ''raw_actions'', recommended_actions)]))))
      | _ \<Rightarrow> Inr metrics)"

definition initial_metrics :: "pydict \<Rightarrow> pydict" where
  "initial_metrics collected_data =
     [(lit ''data_collection_time'', dict_get collected_data (lit ''timestamp'') PNone),
      (lit ''total_predictions'', PInt 0),
      (lit ''defect_rates'', PDict []),
      (lit ''quality_scores'', PDict []),
      (lit ''forecast_accuracy'', PDict []),
      (lit ''rl_performance'', PDict []),
      (lit ''system_health'', PDict []),
      (lit ''collection_success_rate'', PFloat 0)]"

text \<open>The status of the system health, from the number of successful sources (of
  \<open>total_sources = 4\<close>) and the number of collection errors.\<close>

definition overall_status :: "nat \<Rightarrow> nat \<Rightarrow> pystr" where
  "overall_status successful_collections error_count =
     (if successful_collections = 4 \<and> error_count = 0 then lit ''healthy''
      else if successful_collections \<ge> 3
      then (if error_count \<le> 1 then lit ''healthy'' else lit ''degraded'')
      else if successful_collections \<ge> 2 then lit ''degraded''
      else lit ''critical'')"

definition finish_metrics :: "pydict \<Rightarrow> nat \<times> pydict \<Rightarrow> pyexc + pydict" where
  "finish_metrics collected_data st =
     (let successful_collections = fst st;
          metrics = dict_set (snd st) (lit ''collection_success_rate'')
                      (PFloat (of_nat successful_collections / 4 * 100))
      in and_then (py_len (dict_get collected_data (lit ''collection_errors'') (PList [])))
           (\<lambda>error_count.
              Inr (dict_set metrics (lit ''system_health'')
                     (PDict [(lit ''data_availability'',
                                PStr (decimal successful_collections @ lit ''/'' @ decimal 4
                                        @ lit '' sources online'')),
                             (lit ''collection_errors'', PInt (int error_count)),
                             (lit ''overall_status'',
                                PStr (overall_status successful_collections error_count)),
                             (lit ''successful_sources'', PInt (int successful_collections)),
                             (lit ''total_sources'', PInt 4)]))))"

definition real_metrics_body :: "formatting \<Rightarrow> pydict \<Rightarrow> pyexc + pydict" where
  "real_metrics_body fmt collected_data =
     and_then (process_source collected_data (lit ''classification'') process_classification
                 (0, initial_metrics collected_data)) (\<lambda>st1.
     and_then (process_source collected_data (lit ''quality'') process_quality st1) (\<lambda>st2.
     and_then (process_source collected_data (lit ''forecasting'') (process_forecasting fmt) st2) (\<lambda>st3.
     and_then (process_source collected_data (lit ''rl_actions'') (process_rl fmt) st3) (\<lambda>st4.
       finish_metrics collected_data st4))))"

definition metrics_fallback :: "formatting \<Rightarrow> pyexc \<Rightarrow> pydict" where
  "metrics_fallback fmt e =
     [(lit ''error'', PStr (exc_str e)),
      (lit ''data_collection_time'', PStr (fmt_now fmt)),
      (lit ''total_predictions'', PInt 0),
      (lit ''collection_success_rate'', PFloat 0),
      (lit ''system_health'',
         PDict [(lit ''overall_status'', PStr (lit ''critical'')),
                (lit ''collection_errors'', PInt 1),
                (lit ''data_availability'', PStr (lit ''0/4 sources online''))])]"

definition extract_real_metrics :: "formatting \<Rightarrow> pydict \<Rightarrow> pyexc + pydict" where
  "extract_real_metrics fmt collected_data =
     except_Exception_with (real_metrics_body fmt collected_data) (metrics_fallback fmt)"

text \<open>
  For the statements about \<open>_extract_real_metrics\<close>: a source counts as successful when
  its value is present (not empty, not \<open>None\<close>) and carries no \<open>'error'\<close>;
  \<open>successful_count\<close> is the number \<open>K\<close> of such sources among the four, and
  \<open>recorded_errors\<close> the number \<open>E\<close> of recorded collection errors. \<open>success_rate_of\<close>
  and \<open>health_status_of\<close> read \<open>metrics['collection_success_rate']\<close> and
  \<open>metrics['system_health']['overall_status']\<close>.
\<close>

definition source_successful :: "pydict \<Rightarrow> pystr \<Rightarrow> bool" where
  "source_successful collected_data k =
     (case map_of collected_data k of
        None \<Rightarrow> False
      | Some v \<Rightarrow>
          truthy v \<and>
          (case v of
             PDict d \<Rightarrow> map_of d (lit ''error'') = None
           | PStr s \<Rightarrow> \<not> str_contains (lit ''error'') s
           | PList xs \<Rightarrow> PStr (lit ''error'') \<notin> set xs
           | _ \<Rightarrow> False))"

definition successful_count :: "pydict \<Rightarrow> nat" where
  "successful_count collected_data =
     length (filter (source_successful collected_data)
       [lit ''classification'', lit ''quality'', lit ''forecasting'', lit ''rl_actions''])"

definition recorded_errors :: "pydict \<Rightarrow> nat" where
  "recorded_errors collected_data =
     (case py_len (dict_get collected_data (lit ''collection_errors'') (PList [])) of
        Inr n \<Rightarrow> n | Inl e \<Rightarrow> 0)"

definition success_rate_of :: "pydict \<Rightarrow> pyval option" where
  "success_rate_of metrics = map_of metrics (lit ''collection_success_rate'')"

definition health_status_of :: "pydict \<Rightarrow> pyval option" where
  "health_status_of metrics =
     (case map_of metrics (lit ''system_health'') of
        Some (PDict health) \<Rightarrow> map_of health (lit ''overall_status'')
      | _ \<Rightarrow> None)"

text \<open>
  \<open>collect_current_data\<close> of the base generator: the four sources in the order of the
  source, each with the outcome of its request. A response with status 200 stores the
  decoded body, another status stores \<open>{'error': 'HTTP <status>'}\<close>, and an exception
  deriving from \<open>Exception\<close> stores \<open>{'error': str(e)}\<close>.
\<close>

definition collect_source :: "http_outcome \<Rightarrow> pyexc + pyval" where
  "collect_source outcome =
     except_Exception_with
       (case outcome of
          TransportError e \<Rightarrow> Inl e
        | Response status body \<Rightarrow>
            if status = 200 then body
            else Inr (PDict [(lit ''error'',
                        PStr (lit ''HTTP '' @ (if status < 0 then lit ''-'' else []) @ decimal (nat \<bar>status\<bar>)))]))
       (\<lambda>e. PDict [(lit ''error'', PStr (exc_str e))])"

fun collect_current_data :: "(pystr \<times> http_outcome) list \<Rightarrow> pydict \<Rightarrow> pyexc + pydict" where
  "collect_current_data [] collected_data = Inr collected_data"
| "collect_current_data ((source_name, outcome) # rest) collected_data =
     and_then (collect_source outcome) (\<lambda>data.
       collect_current_data rest (dict_set collected_data source_name data))"

definition data_sources :: "http_outcome \<Rightarrow> http_outcome \<Rightarrow> http_outcome \<Rightarrow> http_outcome
    \<Rightarrow> (pystr \<times> http_outcome) list" where
  "data_sources forecast defect quality rl =
     [(lit ''forecasting'', forecast), (lit ''classification'', defect),
      (lit ''quality'', quality), (lit ''rl_actions'', rl)]"

text \<open>
  \<open>_collect_comprehensive_data\<close>: every source of the API data is copied, a missing
  one is recorded in \<open>collection_errors\<close>; an exception deriving from \<open>Exception\<close>
  gives \<open>{'error': ..., 'timestamp': ...}\<close>.
\<close>

definition copy_source :: "pydict \<Rightarrow> pystr \<Rightarrow> pystr \<Rightarrow> pydict \<Rightarrow> pydict" where
  "copy_source api_data k message collected_data =
     (case map_of api_data k of
        Some v \<Rightarrow> dict_set collected_data k v
      | None \<Rightarrow>
          dict_set collected_data (lit ''collection_errors'')
            (case dict_get collected_data (lit ''collection_errors'') (PList []) of
               PList errors \<Rightarrow> PList (errors @ [PStr message])
             | other \<Rightarrow> other))"

definition collect_comprehensive_data :: "pystr \<Rightarrow> (pystr \<times> http_outcome) list \<Rightarrow> pyexc + pydict" where
  "collect_comprehensive_data now sources =
     except_Exception_with
       (and_then (collect_current_data sources []) (\<lambda>api_data.
          Inr (copy_source api_data (lit ''rl_actions'') (lit ''RL data not available'')
              (copy_source api_data (lit ''quality'') (lit ''Quality data not available'')
              (copy_source api_data (lit ''forecasting'') (lit ''Forecasting data not available'')
              (copy_source api_data (lit ''classification'') (lit ''Classification data not available'')
                 [(lit ''timestamp'', PStr now),
                  (lit ''classification'', PNone),
                  (lit ''forecasting'', PNone),
                  (lit ''quality'', PNone),
                  (lit ''rl_actions'', PNone),
                  (lit ''collection_errors'', PList [])]))))))
       (\<lambda>e. [(lit ''error'', PStr (exc_str e)), (lit ''timestamp'', PStr now)])"

text \<open>
  The steps of \<open>generate_report\<close> that compose the report's text are parameters: each
  returns its result or raises. \<open>llm_available\<close> is
  \<open>self.llm_client and self.llm_client.is_available()\<close>.
\<close>

record report_steps =
  llm_available :: bool
  generate_llm_report :: "pydict \<Rightarrow> pydict \<Rightarrow> pystr \<Rightarrow> pyexc + pydict"
  generate_enhanced_template_report :: "pydict \<Rightarrow> pydict \<Rightarrow> pyexc + pydict"
  build_comprehensive_report_content :: "pydict \<Rightarrow> pydict \<Rightarrow> pyexc + pystr"
  get_data_source_info :: "pydict \<Rightarrow> pyexc + pyval"
  create_data_summary :: "pydict \<Rightarrow> pyexc + pyval"
  assess_data_freshness :: "pydict \<Rightarrow> pyexc + pyval"
  report_time :: pystr
  report_time_id :: pystr

text \<open>\<open>_generate_emergency_report\<close>.\<close>

definition generate_emergency_report :: "report_steps \<Rightarrow> pystr \<Rightarrow> pyval" where
  "generate_emergency_report steps error_message =
     PDict
      [(lit ''title'', PStr (lit ''Emergency Quality Control Report'')),
       (lit ''generated_at'', PStr (report_time steps)),
       (lit ''report_id'', PStr (lit ''EMERGENCY_'' @ report_time_id steps)),
       (lit ''status'', PStr (lit ''error'')),
       (lit ''error_message'', PStr error_message),
       (lit ''executive_summary'',
          PStr (lit ''Report generation failed due to system error: '' @ error_message
                @ lit ''. Emergency procedures should be initiated to restore monitoring capabilities.'')),
       (lit ''quality_metrics'',
          PDict [(lit ''error'', PStr error_message),
                 (lit ''system_status'', PStr (lit ''failed'')),
                 (lit ''data_collection_time'', PStr (report_time steps))]),
       (lit ''detailed_analysis'',
          PStr (lit ''Unable to complete analysis due to system failure. Manual quality checks recommended.'')),
       (lit ''recommendations'',
          PList [PStr (lit ''Investigate system error immediately''),
                 PStr (lit ''Implement manual quality monitoring procedures''),
                 PStr (lit ''Contact technical support for system restoration''),
                 PStr (lit ''Document all manual quality checks until system recovery'')]),
       (lit ''compliance_status'',
          PStr (lit ''UNABLE TO ASSESS - System failure prevents compliance monitoring'')),
       (lit ''risk_assessment'',
          PStr (lit ''HIGH RISK - Quality monitoring system failure requires immediate attention'')),
       (lit ''action_items'',
          PList [PStr (lit ''CRITICAL: Restore quality monitoring system''),
                 PStr (lit ''URGENT: Implement emergency quality procedures''),
                 PStr (lit ''HIGH: Contact technical support''),
                 PStr (lit ''MEDIUM: Document all manual processes'')]),
       (lit ''appendix'',
          PDict [(lit ''error_details'', PStr error_message),
                 (lit ''methodology'', PStr (lit ''Emergency report generation due to system failure'')),
                 (lit ''recommendations'',
                    PStr (lit ''Restore normal system operation as soon as possible''))])]"

text \<open>
  The body of the \<open>try\<close> block of \<open>generate_report\<close>: collect, extract the metrics,
  compose the content (by the LLM when available, falling back to the template when the
  LLM step raises an exception deriving from \<open>Exception\<close>), build the report and clean
  it. \<open>generate_report\<close> returns its result, or the emergency report with \<open>str(e)\<close>
  when the body raises an exception \<open>e\<close> deriving from \<open>Exception\<close>.
\<close>

definition report_content_of ::
    "report_steps \<Rightarrow> pydict \<Rightarrow> pydict \<Rightarrow> pystr \<Rightarrow> pyexc + pydict" where
  "report_content_of steps metrics collected_data q =
     (if llm_available steps then
        (case generate_llm_report steps metrics collected_data q of
           Inr report_content \<Rightarrow> Inr report_content
         | Inl e \<Rightarrow>
             if is_Exception e then generate_enhanced_template_report steps metrics collected_data
             else Inl e)
      else generate_enhanced_template_report steps metrics collected_data)"

definition report_body ::
    "report_steps \<Rightarrow> formatting \<Rightarrow> (pystr \<times> http_outcome) list \<Rightarrow> pystr \<Rightarrow> pyexc + pyval" where
  "report_body steps fmt sources q =
     and_then (collect_comprehensive_data (report_time steps) sources) (\<lambda>collected_data.
     and_then (extract_real_metrics fmt collected_data) (\<lambda>metrics.
     and_then (report_content_of steps metrics collected_data q) (\<lambda>report_content.
     and_then (build_comprehensive_report_content steps report_content metrics) (\<lambda>full_report_content.
     and_then (get_data_source_info steps collected_data) (\<lambda>source_info.
     and_then (create_data_summary steps collected_data) (\<lambda>data_summary.
     and_then (assess_data_freshness steps collected_data) (\<lambda>data_freshness.
       Inr (clean_report_content (PDict
         [(lit ''title'', PStr (lit ''Pharmaceutical Manufacturing Quality Control Report'')),
          (lit ''generated_at'', PStr (report_time steps)),
          (lit ''report_id'', PStr (lit ''QC_'' @ report_time_id steps)),
          (lit ''data_sources'', source_info),
          (lit ''report_content'', PStr full_report_content),
          (lit ''executive_summary'', dict_get report_content (lit ''executive_summary'') (PStr [])),
          (lit ''quality_metrics'', PDict metrics),
          (lit ''detailed_analysis'', dict_get report_content (lit ''detailed_analysis'') (PStr [])),
          (lit ''recommendations'', dict_get report_content (lit ''recommendations'') (PList [])),
          (lit ''compliance_status'', dict_get report_content (lit ''compliance_status'') (PStr [])),
          (lit ''risk_assessment'', dict_get report_content (lit ''risk_assessment'') (PStr [])),
          (lit ''action_items'', dict_get report_content (lit ''action_items'') (PList [])),
          (lit ''appendix'',
             PDict [(lit ''raw_data_summary'', data_summary),
                    (lit ''methodology'',
                       PStr (lit ''Real-time data collection with ML model predictions'')),
                    (lit ''data_freshness'', data_freshness)])])))))))))"

definition generate_report ::
    "report_steps \<Rightarrow> formatting \<Rightarrow> (pystr \<times> http_outcome) list \<Rightarrow> pystr \<Rightarrow> pyexc + pyval" where
  "generate_report steps fmt sources q =
     (case report_body steps fmt sources q of
        Inr report \<Rightarrow> Inr report
      | Inl e \<Rightarrow>
          if is_Exception e then Inr (generate_emergency_report steps (exc_str e)) else Inl e)"

section \<open>Properties\<close>

lemma lit_eq_iff: "lit a = lit b \<longleftrightarrow> a = b"
  unfolding lit_def by (simp add: inj_map_eq_map inj_on_def)

subsection \<open>The emoji cleaner\<close>

text \<open>
  No character of a key of the table is in the class that the pattern removes: the
  second step never removes a piece of a key, and it can join the pieces of one.
\<close>

lemma emoji_keys_outside_pattern:
  "\<forall>(emoji, replacement) \<in> set emoji_replacements. \<forall>c \<in> set emoji. \<not> in_emoji_pattern c"
  by (simp add: emoji_replacements_def in_emoji_pattern_def)

text \<open>
  C9 (emoji cleaning is idempotent) fails on the code. The report
  \<open>{"executive_summary": t}\<close>, with \<open>t\<close> the three code points \<open>U+00E2 U+2600 U+00B0\<close>, is
  cleaned to \<open>U+00E2 U+00B0\<close>: no key of the table occurs, and the pattern drops
  \<open>U+2600\<close>. What is left is the key of \<open>[TIME]\<close>, so a second pass rewrites it to
  \<open>[TIME]\<close>: cleaning twice differs from cleaning once.
\<close>

theorem clean_report_content_not_idempotent:
  "clean_report_content (PDict [(lit ''executive_summary'', PStr [0xE2, 0x2600, 0xB0])])
     = PDict [(lit ''executive_summary'', PStr [0xE2, 0xB0])]
   \<and> clean_report_content (clean_report_content
        (PDict [(lit ''executive_summary'', PStr [0xE2, 0x2600, 0xB0])]))
     = PDict [(lit ''executive_summary'', PStr (lit ''[TIME]''))]"
  by (simp add: clean_emojis_from_text_def emoji_replacements_def str_replace_def
      in_emoji_pattern_def lit_def)

subsection \<open>The LLM client\<close>

text \<open>
  C3 (on total failure the client returns the fallback content) fails on the code.
  With an available client and a prompt that builds, a first call that raises
  \<open>Exception("500 Internal error")\<close> leaves the loop by \<open>break\<close>, and calls that
  all raise \<open>Exception("429 Resource exhausted")\<close> are retried three times in full and
  three times in compact mode (sleeping 15 + 30 + 15 + 30 seconds) before the loop is
  left by \<open>break\<close>. In both cases the function ends without a \<open>return\<close>: its result
  is \<open>None\<close>, not a dictionary with the fallback content.
\<close>

theorem generate_comprehensive_report_returns_None:
  "generate_comprehensive_report
      \<lparr>client_set = True, model_set = True, model_name = None\<rparr>
      \<lparr>generate_content = (\<lambda>k. Inl (PyExc True (lit ''500 Internal error''))),
       build_prompt = (\<lambda>c. Inr (lit ''prompt'')), clean_and_format = (\<lambda>s. s),
       timestamp = lit ''2025-01-01 00:00:00'', title_of = (\<lambda>s. s)\<rparr>
      (lit ''quality_control'') False (0, 0) = (Returns PNone, 1, 0)
   \<and> generate_comprehensive_report
      \<lparr>client_set = True, model_set = True, model_name = None\<rparr>
      \<lparr>generate_content = (\<lambda>k. Inl (PyExc True (lit ''429 Resource exhausted''))),
       build_prompt = (\<lambda>c. Inr (lit ''prompt'')), clean_and_format = (\<lambda>s. s),
       timestamp = lit ''2025-01-01 00:00:00'', title_of = (\<lambda>s. s)\<rparr>
      (lit ''quality_control'') False (0, 0) = (Returns PNone, 6, 90)"
  by (simp add: is_available_def is_rate_limit_def lit_def str_lower_def)

text \<open>
  More generally: with an available client and prompts that build, whenever every call
  of \<open>generate_content\<close> raises an exception deriving from \<open>Exception\<close>, the result
  is \<open>None\<close>, in either mode and whatever the errors are.
\<close>

declare generate_comprehensive_report.simps [simp del] attempt_loop.simps [simp del]

lemma every_call_fails_returns_None:
  assumes fails: "\<forall>k. \<exists>e. generate_content env k = Inl e \<and> is_Exception e"
    and prompt: "\<forall>cm. \<exists>p. build_prompt env cm = Inr p"
    and avail: "is_available self"
  shows "fst (generate_comprehensive_report self env report_type use_compact_mode st) = Returns PNone"
    and "fst (attempt_loop self env report_type use_compact_mode full_prompt attempt st') = Returns PNone"
  using assms
proof (induction self env report_type use_compact_mode st and
         self env report_type use_compact_mode full_prompt attempt st'
       rule: generate_comprehensive_report_attempt_loop.induct)
  case (1 self env report_type use_compact_mode st)
  from "1.prems"(2) obtain p where p: "build_prompt env use_compact_mode = Inr p" by blast
  from "1.IH" [OF _ p] "1.prems"
  have "fst (attempt_loop self env report_type use_compact_mode p 0 st) = Returns PNone"
    by simp
  then show ?case
    using "1.prems"(3) p
    by (cases "attempt_loop self env report_type use_compact_mode p 0 st")
       (simp add: generate_comprehensive_report.simps)
next
  case (2 self env report_type use_compact_mode full_prompt attempt calls slept)
  from "2.prems"(1) obtain e where e: "generate_content env calls = Inl e" "is_Exception e"
    by blast
  show ?case
  proof (cases "attempt \<ge> 3")
    case True
    then show ?thesis by (simp add: attempt_loop.simps)
  next
    case False
    note small = this
    show ?thesis
    proof (cases "is_rate_limit (exc_str e)")
      case False
      with small e show ?thesis by (simp add: attempt_loop.simps)
    next
      case True
      note rl = this
      show ?thesis
      proof (cases "attempt < 2")
        case True
        with "2.IH"(1) [OF small e(1) _ rl True] e(2) "2.prems" small e rl show ?thesis
          by (simp add: attempt_loop.simps)
      next
        case False
        note last = this
        show ?thesis
        proof (cases "\<not> use_compact_mode \<and> attempt = 2")
          case True
          with "2.IH"(2) [OF small e(1) _ rl last True] e(2) "2.prems" small e rl last show ?thesis
            by (simp add: attempt_loop.simps)
        next
          case False
          with small e rl last show ?thesis by (simp add: attempt_loop.simps)
        qed
      qed
    qed
  qed
qed

subsection \<open>The knowledge store\<close>

lemma sorted_rev_one_minus:
  fixes ds :: "rat list"
  shows "sorted ds \<Longrightarrow> sorted (rev (map (\<lambda>d. 1 - d) ds))"
  by (induction ds) (auto simp: sorted_append)

lemma search_result_shape:
  assumes "search_relevant_context env self q c n = Inr res"
  shows "res = [] \<or> (\<exists>zs. res = sort_key distance (map (\<lambda>(doc, meta, dist).
       \<lparr>content = doc, metadata = meta, distance = dist, relevance_score = 1 - dist\<rparr>) zs))"
  using assms unfolding search_relevant_context_def except_Exception_def
  by (auto split: if_splits sum.splits)

text \<open>
  C6: in every non-empty list that \<open>search_relevant_context\<close> returns, each item's
  \<open>relevance_score\<close> is 1 minus its \<open>distance\<close>, the distances are in non-decreasing
  order and the relevance scores in non-increasing order.
\<close>

theorem search_results_sorted_by_distance:
  assumes "search_relevant_context env self q c n = Inr res" and "res \<noteq> []"
  shows "(\<forall>r \<in> set res. relevance_score r = 1 - distance r)
       \<and> sorted (map distance res) \<and> sorted (rev (map relevance_score res))"
proof -
  from search_result_shape [OF assms(1)] assms(2) obtain zs where
    res: "res = sort_key distance (map (\<lambda>(doc, meta, dist).
       \<lparr>content = doc, metadata = meta, distance = dist, relevance_score = 1 - dist\<rparr>) zs)"
    by blast
  have a: "\<forall>r \<in> set res. relevance_score r = 1 - distance r"
    unfolding res by auto
  have b: "sorted (map distance res)"
    unfolding res by (rule sorted_sort_key)
  from a have "map relevance_score res = map (\<lambda>d. 1 - d) (map distance res)"
    by (induction res) auto
  then have "sorted (rev (map relevance_score res))"
    using sorted_rev_one_minus [OF b] by (simp only:)
  with a b show ?thesis by blast
qed

text \<open>
  A search whose index answers with the documents \<open>far\<close> (distance 0.3) and \<open>near\<close>
  (distance 0.1), in that order, returns \<open>near\<close> before \<open>far\<close>, with relevance 0.9
  and 0.7.
\<close>

theorem search_results_sorted_by_distance_witness:
  "search_relevant_context
      \<lparr>encode = (\<lambda>t. Inr [1]),
       query = (\<lambda>col e n. Inr \<lparr>documents = [[lit ''far'', lit ''near'']],
                                metadatas = [[[], []]],
                                distances = [[3 / 10, 1 / 10]]\<rparr>),
       now_iso = [], now_id = [], cutoff_iso = (\<lambda>days. Inr []),
       format_data_as_text = (\<lambda>d. []), str_len = (\<lambda>d. 0)\<rparr>
      \<lparr>embedding_model_set = True, kb_client_set = True,
       collections = [(lit ''historical_data'', [])]\<rparr>
      (lit ''defects'') (lit ''historical_data'') 10
    = Inr [\<lparr>content = lit ''near'', metadata = [], distance = 1 / 10, relevance_score = 9 / 10\<rparr>,
           \<lparr>content = lit ''far'', metadata = [], distance = 3 / 10, relevance_score = 7 / 10\<rparr>]
   \<and> sorted (map distance
        [\<lparr>content = lit ''near'', metadata = [], distance = 1 / 10, relevance_score = 9 / 10\<rparr>,
         \<lparr>content = lit ''far'', metadata = [], distance = 3 / 10, relevance_score = 7 / 10\<rparr>])
   \<and> sorted (rev (map relevance_score
        [\<lparr>content = lit ''near'', metadata = [], distance = 1 / 10, relevance_score = 9 / 10\<rparr>,
         \<lparr>content = lit ''far'', metadata = [], distance = 3 / 10, relevance_score = 7 / 10\<rparr>]))"
proof -
  let ?res = "[\<lparr>content = lit ''near'', metadata = [], distance = 1 / 10, relevance_score = 9 / 10\<rparr>,
           \<lparr>content = lit ''far'', metadata = [], distance = 3 / 10, relevance_score = 7 / 10\<rparr>]"
  have h: "search_relevant_context
      \<lparr>encode = (\<lambda>t. Inr [1]),
       query = (\<lambda>col e n. Inr \<lparr>documents = [[lit ''far'', lit ''near'']],
                                metadatas = [[[], []]],
                                distances = [[3 / 10, 1 / 10]]\<rparr>),
       now_iso = [], now_id = [], cutoff_iso = (\<lambda>days. Inr []),
       format_data_as_text = (\<lambda>d. []), str_len = (\<lambda>d. 0)\<rparr>
      \<lparr>embedding_model_set = True, kb_client_set = True,
       collections = [(lit ''historical_data'', [])]\<rparr>
      (lit ''defects'') (lit ''historical_data'') 10 = Inr ?res"
    by (simp add: search_relevant_context_def except_Exception_def first_of_def lit_eq_iff)
  have n: "?res \<noteq> []" by simp
  from search_results_sorted_by_distance [OF h n] h show ?thesis by blast
qed

text \<open>
  C5, as the code has it. When the embedding model or the client of the index is
  missing, \<open>add_documentation\<close> and \<open>add_historical_data\<close> return \<open>False\<close> and
  \<open>search_relevant_context\<close> returns the empty list, whatever the other arguments; the
  manager is unchanged. \<open>cleanup_old_embeddings\<close> tests the client only: when the client
  is missing it returns without raising and deletes nothing.
\<close>

theorem knowledge_store_unavailable_noop:
  "(\<not> embedding_model_set self \<or> \<not> kb_client_set self \<longrightarrow>
      add_documentation env self doc_type text meta = Inr (False, self)
    \<and> add_historical_data env self data_type data = Inr (False, self)
    \<and> search_relevant_context env self q c n = Inr [])
   \<and> (\<not> kb_client_set self \<longrightarrow> cleanup_old_embeddings env self days = Inr self)"
  by (simp add: add_documentation_def add_historical_data_def search_relevant_context_def
      cleanup_old_embeddings_def)

text \<open>The same at a manager with neither model nor client, holding one old document.\<close>

theorem knowledge_store_unavailable_noop_witness:
  "add_documentation
      \<lparr>encode = (\<lambda>t. Inr [1]),
       query = (\<lambda>col e n. Inr \<lparr>documents = [], metadatas = [], distances = []\<rparr>),
       now_iso = lit ''2025-06-01T00:00:00.000000'', now_id = lit ''20250601_000000_000000'',
       cutoff_iso = (\<lambda>days. Inr (lit ''2025-05-02T00:00:00.000000'')),
       format_data_as_text = (\<lambda>d. lit ''Data''), str_len = (\<lambda>d. 4)\<rparr>
      \<lparr>embedding_model_set = False, kb_client_set = False, collections = []\<rparr>
      (lit ''sop'') (lit ''Cleaning procedure'') []
    = Inr (False, \<lparr>embedding_model_set = False, kb_client_set = False, collections = []\<rparr>)
   \<and> cleanup_old_embeddings
      \<lparr>encode = (\<lambda>t. Inr [1]),
       query = (\<lambda>col e n. Inr \<lparr>documents = [], metadatas = [], distances = []\<rparr>),
       now_iso = lit ''2025-06-01T00:00:00.000000'', now_id = lit ''20250601_000000_000000'',
       cutoff_iso = (\<lambda>days. Inr (lit ''2025-05-02T00:00:00.000000'')),
       format_data_as_text = (\<lambda>d. lit ''Data''), str_len = (\<lambda>d. 4)\<rparr>
      \<lparr>embedding_model_set = False, kb_client_set = False, collections = []\<rparr> 30
    = Inr \<lparr>embedding_model_set = False, kb_client_set = False, collections = []\<rparr>"
  using knowledge_store_unavailable_noop
    [of "\<lparr>embedding_model_set = False, kb_client_set = False, collections = []\<rparr>"
        "\<lparr>encode = (\<lambda>t. Inr [1]),
          query = (\<lambda>col e n. Inr \<lparr>documents = [], metadatas = [], distances = []\<rparr>),
          now_iso = lit ''2025-06-01T00:00:00.000000'', now_id = lit ''20250601_000000_000000'',
          cutoff_iso = (\<lambda>days. Inr (lit ''2025-05-02T00:00:00.000000'')),
          format_data_as_text = (\<lambda>d. lit ''Data''), str_len = (\<lambda>d. 4)\<rparr>"
        "lit ''sop''" "lit ''Cleaning procedure''" "[]" _ _ _ _ _ 30]
  by simp

text \<open>
  C5 as stated fails for \<open>cleanup_old_embeddings\<close>: with the embedding model missing
  and the client present, the clean-up runs and deletes the document whose timestamp
  lies before the cutoff.
\<close>

theorem cleanup_without_embedding_model_deletes:
  "cleanup_old_embeddings
      \<lparr>encode = (\<lambda>t. Inr [1]),
       query = (\<lambda>col e n. Inr \<lparr>documents = [], metadatas = [], distances = []\<rparr>),
       now_iso = lit ''2025-06-01T00:00:00.000000'',
       now_id = lit ''20250601_000000_000000'',
       cutoff_iso = (\<lambda>days. Inr (lit ''2025-05-02T00:00:00.000000'')),
       format_data_as_text = (\<lambda>d. lit ''Data''), str_len = (\<lambda>d. 4)\<rparr>
      \<lparr>embedding_model_set = False, kb_client_set = True,
       collections =
         [(lit ''documentation'',
           [\<lparr>doc_id = lit ''sop_1'', doc_embedding = [1], doc_text = lit ''SOP'',
             doc_metadata = [(lit ''timestamp'', PStr (lit ''2024-01-01T00:00:00.000000''))]\<rparr>])]\<rparr>
      30
    = Inr \<lparr>embedding_model_set = False, kb_client_set = True,
           collections = [(lit ''documentation'', [])]\<rparr>"
  by (simp add: cleanup_old_embeddings_def timestamp_lt_def doc_timestamp_def dict_get_def
      collection_delete_def lit_eq_iff lit_def)

lemma old_ids_of_strings:
  "string_timestamps col \<Longrightarrow>
   old_ids_of cutoff col = Inr (map doc_id (filter (\<lambda>d. lexically_older d cutoff) col))"
  by (induction col)
     (auto simp: string_timestamps_def lexically_older_def timestamp_lt_def split: pyval.splits)

lemma collection_delete_old:
  assumes "distinct (map doc_id col)"
  shows "collection_delete (map doc_id (filter P col)) col = filter (\<lambda>d. \<not> P d) col"
proof -
  have inj: "inj_on doc_id (set col)"
    using assms by (simp add: distinct_map)
  have "doc_id d \<notin> set (map doc_id (filter P col)) \<longleftrightarrow> \<not> P d" if "d \<in> set col" for d
    using that inj by (auto dest: inj_onD)
  then show ?thesis
    unfolding collection_delete_def by (intro filter_cong) auto
qed

lemma collection_delete_nothing: "collection_delete [] col = col"
  by (simp add: collection_delete_def)

lemma cleanup_collections_strings:
  "well_kept cols \<Longrightarrow>
   cleanup_collections cutoff cols
     = (map (\<lambda>(name, col). (name, filter (\<lambda>d. \<not> lexically_older d cutoff) col)) cols, None)"
proof (induction cols)
  case Nil
  then show ?case by simp
next
  case (Cons nc cols)
  obtain name col where nc: "nc = (name, col)" by (cases nc)
  from Cons.prems have d: "distinct (map doc_id col)" and s: "string_timestamps col"
    and rest: "well_kept cols"
    by (simp_all add: nc well_kept_def)
  have "(if map doc_id (filter (\<lambda>d. lexically_older d cutoff) col) \<noteq> []
         then collection_delete (map doc_id (filter (\<lambda>d. lexically_older d cutoff) col)) col
         else col) = filter (\<lambda>d. \<not> lexically_older d cutoff) col"
    using collection_delete_old [OF d, of "\<lambda>d. lexically_older d cutoff"]
    by (auto simp: collection_delete_nothing)
  then show ?case
    using Cons.IH [OF rest] by (simp add: nc old_ids_of_strings [OF s])
qed

text \<open>
  C8: with the client present, a cutoff string that could be computed, and collections
  whose stored timestamps are strings, \<open>cleanup_old_embeddings\<close> keeps in every
  collection exactly the documents whose timestamp string is not smaller than the cutoff
  string in the order of strings: a document is deleted if and only if its timestamp
  string is lexically smaller than the cutoff. No date is parsed.
\<close>

theorem cleanup_deletes_lexically_older:
  assumes "kb_client_set self"
    and "cutoff_iso env days_to_keep = Inr cutoff_timestamp"
    and "well_kept (collections self)"
  shows "cleanup_old_embeddings env self days_to_keep
     = Inr (self\<lparr>collections :=
              map (\<lambda>(name, col). (name, filter (\<lambda>d. \<not> lexically_older d cutoff_timestamp) col))
                (collections self)\<rparr>)"
  using assms by (simp add: cleanup_old_embeddings_def cleanup_collections_strings)

text \<open>
  At a collection of four documents and the cutoff \<open>2025-05-02T00:00:00.000000\<close>: the
  document of 2024 and the document without timestamp (its timestamp is the empty
  string) are deleted; the document of 2025-05-30 is kept, and so is the document whose
  timestamp is \<open>9/1/2020\<close>, an earlier date but a larger string.
\<close>

theorem cleanup_deletes_lexically_older_witness:
  "cleanup_old_embeddings
      \<lparr>encode = (\<lambda>t. Inr [1]),
       query = (\<lambda>col e n. Inr \<lparr>documents = [], metadatas = [], distances = []\<rparr>),
       now_iso = lit ''2025-06-01T00:00:00.000000'', now_id = lit ''20250601_000000_000000'',
       cutoff_iso = (\<lambda>days. Inr (lit ''2025-05-02T00:00:00.000000'')),
       format_data_as_text = (\<lambda>d. lit ''Data''), str_len = (\<lambda>d. 4)\<rparr>
      \<lparr>embedding_model_set = True, kb_client_set = True,
       collections =
         [(lit ''documentation'',
           [\<lparr>doc_id = lit ''a'', doc_embedding = [1], doc_text = lit ''A'',
             doc_metadata = [(lit ''timestamp'', PStr (lit ''2024-01-01T00:00:00.000000''))]\<rparr>,
            \<lparr>doc_id = lit ''b'', doc_embedding = [1], doc_text = lit ''B'',
             doc_metadata = [(lit ''timestamp'', PStr (lit ''9/1/2020''))]\<rparr>,
            \<lparr>doc_id = lit ''c'', doc_embedding = [1], doc_text = lit ''C'',
             doc_metadata = [(lit ''type'', PStr (lit ''sop''))]\<rparr>,
            \<lparr>doc_id = lit ''d'', doc_embedding = [1], doc_text = lit ''D'',
             doc_metadata = [(lit ''timestamp'', PStr (lit ''2025-05-30T12:00:00.000000''))]\<rparr>])]\<rparr>
      30
    = Inr \<lparr>embedding_model_set = True, kb_client_set = True,
       collections =
         [(lit ''documentation'',
           [\<lparr>doc_id = lit ''b'', doc_embedding = [1], doc_text = lit ''B'',
             doc_metadata = [(lit ''timestamp'', PStr (lit ''9/1/2020''))]\<rparr>,
            \<lparr>doc_id = lit ''d'', doc_embedding = [1], doc_text = lit ''D'',
             doc_metadata = [(lit ''timestamp'', PStr (lit ''2025-05-30T12:00:00.000000''))]\<rparr>])]\<rparr>"
proof -
  let ?env = "\<lparr>encode = (\<lambda>t. Inr [1]),
       query = (\<lambda>col e n. Inr \<lparr>documents = [], metadatas = [], distances = []\<rparr>),
       now_iso = lit ''2025-06-01T00:00:00.000000'', now_id = lit ''20250601_000000_000000'',
       cutoff_iso = (\<lambda>days. Inr (lit ''2025-05-02T00:00:00.000000'')),
       format_data_as_text = (\<lambda>d. lit ''Data''), str_len = (\<lambda>d. 4)\<rparr>"
  let ?self = "\<lparr>embedding_model_set = True, kb_client_set = True,
       collections =
         [(lit ''documentation'',
           [\<lparr>doc_id = lit ''a'', doc_embedding = [1], doc_text = lit ''A'',
             doc_metadata = [(lit ''timestamp'', PStr (lit ''2024-01-01T00:00:00.000000''))]\<rparr>,
            \<lparr>doc_id = lit ''b'', doc_embedding = [1], doc_text = lit ''B'',
             doc_metadata = [(lit ''timestamp'', PStr (lit ''9/1/2020''))]\<rparr>,
            \<lparr>doc_id = lit ''c'', doc_embedding = [1], doc_text = lit ''C'',
             doc_metadata = [(lit ''type'', PStr (lit ''sop''))]\<rparr>,
            \<lparr>doc_id = lit ''d'', doc_embedding = [1], doc_text = lit ''D'',
             doc_metadata = [(lit ''timestamp'', PStr (lit ''2025-05-30T12:00:00.000000''))]\<rparr>])]\<rparr>"
  have c: "kb_client_set ?self" by simp
  have k: "cutoff_iso ?env 30 = Inr (lit ''2025-05-02T00:00:00.000000'')" by simp
  have w: "well_kept (collections ?self)"
    by (simp add: well_kept_def string_timestamps_def doc_timestamp_def dict_get_def lit_eq_iff)
  show ?thesis
    using cleanup_deletes_lexically_older [OF c k w]
    by (simp add: lexically_older_def doc_timestamp_def dict_get_def lit_eq_iff lit_def)
qed

subsection \<open>The classification collector\<close>

lemma last_three_drop: "last_three xs = drop (length xs - 3) xs"
  by (simp add: last_three_def take_rev)

lemma recent_avg_average:
  "sum_list (drop (length ps - 3) ps) / of_nat (min 3 (length ps)) = average (last_three ps)"
  by (simp add: average_def last_three_drop min_def)

lemma earlier_avg_average:
  "sum_list (take 3 ps) / of_nat (min 3 (length ps)) = average (first_three ps)"
  by (simp add: average_def first_three_def min_def)

lemma determine_trend_cases:
  "determine_trend ps =
     (if length ps \<ge> 2 then
        (if average (last_three ps) > average (first_three ps) * (11 / 10) then lit ''increasing''
         else if average (last_three ps) < average (first_three ps) * (9 / 10) then lit ''decreasing''
         else lit ''stable'')
      else lit ''insufficient_data'')"
  unfolding determine_trend_def Let_def recent_avg_average earlier_avg_average by (rule refl)

lemma average_nonneg:
  assumes "\<forall>p \<in> set xs. 0 \<le> p"
  shows "0 \<le> average xs"
  unfolding average_def using assms by (simp add: sum_list_nonneg)

lemma analysis_trend:
  assumes "analyze_defect_predictions cs = Inr (Analysis a)" and "extracted_probs cs = Some ps"
  shows "ps \<noteq> [] \<and> trend a = determine_trend ps"
  using assms
  unfolding analyze_defect_predictions_def extracted_probs_def except_Exception_with_def and_then_def
  by (auto split: sum.splits if_splits)

text \<open>
  C7, as the code has it. Let \<open>ps\<close> be the numeric defect probabilities that
  \<open>_analyze_defect_predictions\<close> extracts, and let the analysis complete. Then \<open>ps\<close>
  is not empty. With exactly one value the trend is \<open>insufficient_data\<close>. With at
  least two values the trend is \<open>increasing\<close> exactly when the average of the last
  three values exceeds 1.1 times the average of the first three, \<open>decreasing\<close> exactly
  when it does not and the average of the last three is below 0.9 times that average,
  and \<open>stable\<close> otherwise; for values that are not negative, as probabilities are,
  \<open>decreasing\<close> holds exactly when the average of the last three is below 0.9 times the
  average of the first three. (Of fewer than three values, the last three and the first
  three are all of them.)
\<close>

theorem trend_classification:
  assumes "analyze_defect_predictions cs = Inr (Analysis a)" and "extracted_probs cs = Some ps"
  shows "ps \<noteq> []
     \<and> (length ps = 1 \<longrightarrow> trend a = lit ''insufficient_data'')
     \<and> (length ps \<ge> 2 \<longrightarrow>
          (trend a = lit ''increasing'' \<longleftrightarrow>
             average (last_three ps) > average (first_three ps) * (11 / 10))
        \<and> (trend a = lit ''decreasing'' \<longleftrightarrow>
             \<not> average (last_three ps) > average (first_three ps) * (11 / 10)
             \<and> average (last_three ps) < average (first_three ps) * (9 / 10))
        \<and> (trend a = lit ''stable'' \<longleftrightarrow>
             \<not> average (last_three ps) > average (first_three ps) * (11 / 10)
             \<and> \<not> average (last_three ps) < average (first_three ps) * (9 / 10)))
     \<and> (length ps \<ge> 2 \<and> (\<forall>p \<in> set ps. 0 \<le> p) \<longrightarrow>
          (trend a = lit ''decreasing'' \<longleftrightarrow>
             average (last_three ps) < average (first_three ps) * (9 / 10)))"
proof -
  from analysis_trend [OF assms] have ne: "ps \<noteq> []" and t: "trend a = determine_trend ps"
    by simp_all
  have one: "length ps = 1 \<longrightarrow> trend a = lit ''insufficient_data''"
    by (simp add: t determine_trend_cases)
  have two: "length ps \<ge> 2 \<longrightarrow>
          (trend a = lit ''increasing'' \<longleftrightarrow>
             average (last_three ps) > average (first_three ps) * (11 / 10))
        \<and> (trend a = lit ''decreasing'' \<longleftrightarrow>
             \<not> average (last_three ps) > average (first_three ps) * (11 / 10)
             \<and> average (last_three ps) < average (first_three ps) * (9 / 10))
        \<and> (trend a = lit ''stable'' \<longleftrightarrow>
             \<not> average (last_three ps) > average (first_three ps) * (11 / 10)
             \<and> \<not> average (last_three ps) < average (first_three ps) * (9 / 10))"
    by (simp add: t determine_trend_cases lit_eq_iff)
  have three: "length ps \<ge> 2 \<and> (\<forall>p \<in> set ps. 0 \<le> p) \<longrightarrow>
          (trend a = lit ''decreasing'' \<longleftrightarrow>
             average (last_three ps) < average (first_three ps) * (9 / 10))"
  proof
    assume h: "length ps \<ge> 2 \<and> (\<forall>p \<in> set ps. 0 \<le> p)"
    then have "\<forall>p \<in> set (first_three ps). 0 \<le> p"
      unfolding first_three_def by (auto dest: in_set_takeD)
    then have "0 \<le> average (first_three ps)" by (rule average_nonneg)
    then have "average (first_three ps) * (9 / 10) \<le> average (first_three ps) * (11 / 10)"
      by (simp add: mult_left_mono)
    with two h show "trend a = lit ''decreasing'' \<longleftrightarrow>
             average (last_three ps) < average (first_three ps) * (9 / 10)"
      by auto
  qed
  from ne one two three show ?thesis by blast
qed

text \<open>
  Four successful predictions with the probabilities 0.1, 0.1, 0.1 and 0.5: the first
  three average 0.1, the last three 0.7 / 3, and the trend is \<open>increasing\<close>.
\<close>

theorem trend_classification_witness:
  "analyze_defect_predictions
      (map (\<lambda>p. PDict [(lit ''timestamp'', PStr (lit ''2025-06-01T00:00:00'')),
                        (lit ''defect_prediction'',
                           PDict [(lit ''api_status'', PStr (lit ''success'')),
                                  (lit ''defect_probability'', PFloat p),
                                  (lit ''risk_level'', PStr (lit ''low'')),
                                  (lit ''confidence'', PFloat (9 / 10))])])
         [1 / 10, 1 / 10, 1 / 10, 1 / 2])
    = Inr (Analysis
        \<lparr>total_predictions = 4, average_defect_probability = 1 / 5,
         max_defect_probability = 1 / 2, min_defect_probability = 1 / 10,
         current_defect_probability = 1 / 2, trend = lit ''increasing'',
         current_risk_level = lit ''medium'', risk_distribution = [(PStr (lit ''low''), 4)],
         confidence_avg = 9 / 10\<rparr>)
   \<and> average (last_three [1 / 10, 1 / 10, 1 / 10, 1 / 2])
       > average (first_three [1 / 10, 1 / 10, 1 / 10, 1 / 2]) * (11 / 10)"
proof -
  let ?cs = "map (\<lambda>p. PDict [(lit ''timestamp'', PStr (lit ''2025-06-01T00:00:00'')),
                        (lit ''defect_prediction'',
                           PDict [(lit ''api_status'', PStr (lit ''success'')),
                                  (lit ''defect_probability'', PFloat p),
                                  (lit ''risk_level'', PStr (lit ''low'')),
                                  (lit ''confidence'', PFloat (9 / 10))])])
         [1 / 10, 1 / 10, 1 / 10, 1 / 2 :: rat]"
  let ?a = "\<lparr>total_predictions = 4, average_defect_probability = 1 / 5,
         max_defect_probability = 1 / 2, min_defect_probability = 1 / 10,
         current_defect_probability = 1 / 2, trend = lit ''increasing'',
         current_risk_level = lit ''medium'', risk_distribution = [(PStr (lit ''low''), 4)],
         confidence_avg = 9 / 10\<rparr>"
  have a: "analyze_defect_predictions ?cs = Inr (Analysis ?a)"
    by (simp add: analyze_defect_predictions_def except_Exception_with_def and_then_def
        dict_get_def lit_eq_iff determine_trend_def current_risk_of_def py_eq_def)
  have p: "extracted_probs ?cs = Some [1 / 10, 1 / 10, 1 / 10, 1 / 2]"
    by (simp add: extracted_probs_def and_then_def dict_get_def lit_eq_iff)
  from trend_classification [OF a p] a show ?thesis by simp
qed

text \<open>
  C7 as stated fails for fewer than two values: with no numeric probability (here one
  successful prediction whose \<open>defect_probability\<close> is \<open>None\<close>) the function returns
  \<open>{'status': 'no_valid_probabilities', 'type': 'defect_prediction'}\<close> before the trend
  is classified, and reports no trend \<open>insufficient_data\<close>.
\<close>

theorem no_numeric_probability_reports_no_trend:
  "extracted_probs
      [PDict [(lit ''timestamp'', PStr (lit ''2025-06-01T00:00:00'')),
              (lit ''defect_prediction'',
                 PDict [(lit ''api_status'', PStr (lit ''success'')),
                        (lit ''defect_probability'', PNone),
                        (lit ''risk_level'', PStr (lit ''low'')),
                        (lit ''confidence'', PFloat (9 / 10))])]] = Some []
   \<and> analyze_defect_predictions
      [PDict [(lit ''timestamp'', PStr (lit ''2025-06-01T00:00:00'')),
              (lit ''defect_prediction'',
                 PDict [(lit ''api_status'', PStr (lit ''success'')),
                        (lit ''defect_probability'', PNone),
                        (lit ''risk_level'', PStr (lit ''low'')),
                        (lit ''confidence'', PFloat (9 / 10))])]] = Inr NoValidProbabilities"
  by (simp add: extracted_probs_def analyze_defect_predictions_def except_Exception_with_def
      and_then_def dict_get_def lit_eq_iff)

lemma api_error_entry: "error_entry (api_error msg endpoint)"
  by (simp add: error_entry_def api_error_def lit_eq_iff)

lemma collect_defect_data_answers:
  assumes "endpoint_answers outcome"
  shows "\<exists>v. collect_defect_data self outcome = Inr v \<and> (endpoint_failure outcome \<longrightarrow> error_entry v)"
proof (cases outcome)
  case (TransportError e)
  with assms show ?thesis
    by (simp add: collect_defect_data_def except_Exception_with_def endpoint_answers_def api_error_entry)
next
  case (Response status body)
  show ?thesis
  proof (cases "status = 200")
    case False
    with Response show ?thesis
      by (simp add: collect_defect_data_def except_Exception_with_def api_error_entry)
  next
    case True
    show ?thesis
    proof (cases body)
      case (Inl e)
      with assms Response True show ?thesis
        by (simp add: collect_defect_data_def except_Exception_with_def endpoint_answers_def
            and_then_def api_error_entry)
    next
      case (Inr data)
      with Response True show ?thesis
        by (cases data)
           (simp_all add: collect_defect_data_def except_Exception_with_def endpoint_failure_def
              and_then_def api_error_entry AttributeError_def)
    qed
  qed
qed

lemma collect_quality_data_answers:
  assumes "endpoint_answers outcome"
  shows "\<exists>v. collect_quality_data self outcome = Inr v \<and> (endpoint_failure outcome \<longrightarrow> error_entry v)"
proof (cases outcome)
  case (TransportError e)
  with assms show ?thesis
    by (simp add: collect_quality_data_def except_Exception_with_def endpoint_answers_def api_error_entry)
next
  case (Response status body)
  show ?thesis
  proof (cases "status = 200")
    case False
    with Response show ?thesis
      by (simp add: collect_quality_data_def except_Exception_with_def api_error_entry)
  next
    case True
    show ?thesis
    proof (cases body)
      case (Inl e)
      with assms Response True show ?thesis
        by (simp add: collect_quality_data_def except_Exception_with_def endpoint_answers_def
            and_then_def api_error_entry)
    next
      case (Inr data)
      with Response True show ?thesis
        by (cases data)
           (simp_all add: collect_quality_data_def except_Exception_with_def endpoint_failure_def
              and_then_def api_error_entry AttributeError_def)
    qed
  qed
qed

lemma add_to_history_last:
  "last (recent_classifications (add_to_history self r)) = r"
  by (simp add: add_to_history_def Let_def last_drop)

text \<open>
  C4: whatever the two endpoint calls lead to (short of an exception outside
  \<open>Exception\<close>), \<open>collect_data\<close> raises nothing and returns a record with the
  timestamp and the two prediction entries; the entry of every failed call (a status
  other than 200, an exception of the transport, a body that is not JSON or not a JSON
  object) carries the status \<open>error\<close> and an error string; and the returned record is
  the last record of the new history.
\<close>

theorem collect_data_never_raises:
  assumes "endpoint_answers defect_outcome" and "endpoint_answers quality_outcome"
  shows "\<exists>defect_prediction quality_prediction self'.
           collect_data self now defect_outcome quality_outcome
             = Inr (PDict [(lit ''timestamp'', PStr now),
                           (lit ''defect_prediction'', defect_prediction),
                           (lit ''quality_prediction'', quality_prediction)], self')
         \<and> (endpoint_failure defect_outcome \<longrightarrow> error_entry defect_prediction)
         \<and> (endpoint_failure quality_outcome \<longrightarrow> error_entry quality_prediction)
         \<and> recent_classifications self' \<noteq> []
         \<and> last (recent_classifications self')
             = PDict [(lit ''timestamp'', PStr now),
                      (lit ''defect_prediction'', defect_prediction),
                      (lit ''quality_prediction'', quality_prediction)]"
proof -
  from collect_defect_data_answers [OF assms(1)] obtain dp where
    dp: "collect_defect_data self defect_outcome = Inr dp"
        "endpoint_failure defect_outcome \<longrightarrow> error_entry dp" by blast
  from collect_quality_data_answers [OF assms(2)] obtain qp where
    qp: "collect_quality_data self quality_outcome = Inr qp"
        "endpoint_failure quality_outcome \<longrightarrow> error_entry qp" by blast
  let ?r = "PDict [(lit ''timestamp'', PStr now), (lit ''defect_prediction'', dp),
                   (lit ''quality_prediction'', qp)]"
  have c: "collect_data self now defect_outcome quality_outcome = Inr (?r, add_to_history self ?r)"
    by (simp add: collect_data_def and_then_def dp(1) qp(1))
  have n: "recent_classifications (add_to_history self ?r) \<noteq> []"
    by (simp add: add_to_history_def Let_def)
  from c dp(2) qp(2) n add_to_history_last [of self ?r] show ?thesis by blast
qed

text \<open>
  The defect endpoint answers with status 500, the quality endpoint times out: both
  entries are error entries, and the record is in the history.
\<close>

theorem collect_data_never_raises_witness:
  "collect_data
      \<lparr>defect_endpoint = lit ''http://host/api/defect'',
       quality_endpoint = lit ''http://host/api/quality'',
       recent_classifications = [], max_history = 100\<rparr>
      (lit ''2025-06-01T00:00:00'')
      (Response 500 (Inl (PyExc True (lit ''not JSON''))))
      (TransportError (PyExc True (lit ''timeout'')))
    = Inr (PDict [(lit ''timestamp'', PStr (lit ''2025-06-01T00:00:00'')),
                  (lit ''defect_prediction'',
                     api_error (lit ''HTTP 500'') (lit ''http://host/api/defect'')),
                  (lit ''quality_prediction'',
                     api_error (lit ''timeout'') (lit ''http://host/api/quality''))],
           \<lparr>defect_endpoint = lit ''http://host/api/defect'',
            quality_endpoint = lit ''http://host/api/quality'',
            recent_classifications =
              [PDict [(lit ''timestamp'', PStr (lit ''2025-06-01T00:00:00'')),
                      (lit ''defect_prediction'',
                         api_error (lit ''HTTP 500'') (lit ''http://host/api/defect'')),
                      (lit ''quality_prediction'',
                         api_error (lit ''timeout'') (lit ''http://host/api/quality''))]],
            max_history = 100\<rparr>)
   \<and> error_entry (api_error (lit ''HTTP 500'') (lit ''http://host/api/defect''))
   \<and> error_entry (api_error (lit ''timeout'') (lit ''http://host/api/quality''))"
proof -
  have d: "endpoint_answers (Response 500 (Inl (PyExc True (lit ''not JSON''))))"
    by (simp add: endpoint_answers_def)
  have q: "endpoint_answers (TransportError (PyExc True (lit ''timeout'')))"
    by (simp add: endpoint_answers_def)
  from collect_data_never_raises [OF d q,
      of "\<lparr>defect_endpoint = lit ''http://host/api/defect'',
          quality_endpoint = lit ''http://host/api/quality'',
          recent_classifications = [], max_history = 100\<rparr>" "lit ''2025-06-01T00:00:00''"]
  show ?thesis
    by (simp add: collect_data_def collect_defect_data_def collect_quality_data_def
        except_Exception_with_def and_then_def add_to_history_def endpoint_failure_def
        decimal.simps [of 500] decimal.simps [of 50] decimal.simps [of 5] lit_def)
qed

subsection \<open>The base report generator\<close>

lemma map_of_dict_set:
  "map_of (dict_set d k v) k' = (if k' = k then Some v else map_of d k')"
  by (induction d) auto

lemma and_then_Inr:
  "and_then m f = Inr r \<longleftrightarrow> (\<exists>v. m = Inr v \<and> f v = Inr r)"
  by (cases m) (simp_all add: and_then_def)

lemma quality_metrics_keeps:
  assumes "quality_metrics cd m = Inr m'"
    and "k \<noteq> lit ''quality_class''" and "k \<noteq> lit ''quality_confidence''"
  shows "map_of m' k = map_of m k"
  using assms unfolding quality_metrics_def
  by (auto simp: and_then_Inr map_of_dict_set split: option.splits)

lemma forecasting_metrics_keeps:
  assumes "forecasting_metrics cd m = Inr m'"
    and "k \<noteq> lit ''forecast_horizon''" and "k \<noteq> lit ''forecast_points''"
  shows "map_of m' k = map_of m k"
  using assms unfolding forecasting_metrics_def
  by (auto simp: and_then_Inr map_of_dict_set split: option.splits)

lemma rl_metrics_keeps:
  assumes "rl_metrics cd m = Inr m'"
    and "k \<noteq> lit ''recommended_actions''" and "k \<noteq> lit ''model_type''"
  shows "map_of m' k = map_of m k"
  using assms unfolding rl_metrics_def
  by (auto simp: and_then_Inr map_of_dict_set split: option.splits)

lemma classification_metrics_none:
  assumes "classification_metrics cd [] = Inr m" and "no_classification cd"
  shows "m = []"
  using assms unfolding classification_metrics_def no_classification_def
  by (simp add: and_then_def)

lemma classification_metrics_without_probability:
  assumes "classification_metrics cd [] = Inr m" and "classification_without_probability cd"
  shows "map_of m (lit ''defect_probability'') = Some (PStr (lit ''N/A''))"
proof -
  from assms(2) obtain d where
    d: "map_of cd (lit ''classification'') = Some (PDict d)"
       "map_of d (lit ''error'') = None" "map_of d (lit ''defect_probability'') = None"
    unfolding classification_without_probability_def
    by (auto split: option.splits pyval.splits)
  from d(2) have "lit ''error'' \<notin> fst ` set d"
    by (simp add: map_of_eq_None_iff)
  then have u: "usable_source cd (lit ''classification'') = Inr (Some (PDict d))"
    by (simp add: usable_source_def d(1) and_then_def)
  from assms(1) show ?thesis
    unfolding classification_metrics_def
    by (simp add: u and_then_def dict_get_def d(3) lit_eq_iff split: if_splits)
      (auto simp: lit_eq_iff)
qed

lemma key_metrics_body_probability:
  assumes "key_metrics_body cd = Inr m"
  shows "\<exists>m1 m4. classification_metrics cd [] = Inr m1 \<and> m = with_risk_level m4
           \<and> map_of m4 (lit ''defect_probability'') = map_of m1 (lit ''defect_probability'')"
proof -
  from assms obtain m1 m2 m3 m4 where
    s: "classification_metrics cd [] = Inr m1" "quality_metrics cd m1 = Inr m2"
       "forecasting_metrics cd m2 = Inr m3" "rl_metrics cd m3 = Inr m4" "m = with_risk_level m4"
    unfolding key_metrics_body_def by (auto simp: and_then_Inr)
  have "map_of m4 (lit ''defect_probability'') = map_of m1 (lit ''defect_probability'')"
    using quality_metrics_keeps [OF s(2), of "lit ''defect_probability''"]
      forecasting_metrics_keeps [OF s(3), of "lit ''defect_probability''"]
      rl_metrics_keeps [OF s(4), of "lit ''defect_probability''"]
    by (simp add: lit_eq_iff)
  with s(1,5) show ?thesis by blast
qed

lemma with_risk_level_lookup:
  "map_of (with_risk_level m4) (lit ''defect_probability'') = map_of m4 (lit ''defect_probability'')"
  "map_of (with_risk_level m4) (lit ''risk_level'') =
     Some (PStr (if is_numeric (dict_get m4 (lit ''defect_probability'') (PInt 0))
                 then risk_level_for (num_of (dict_get m4 (lit ''defect_probability'') (PInt 0)))
                 else lit ''Unknown''))"
  by (simp_all add: with_risk_level_def Let_def map_of_dict_set lit_eq_iff)

text \<open>
  C10, as the code has it. When none of the four blocks of \<open>extract_key_metrics\<close>
  raises, the metrics are returned and: whenever their \<open>defect_probability\<close> is
  numeric, their \<open>risk_level\<close> is the value of the threshold table (above 0.8
  \<open>Critical\<close>, above 0.6 \<open>High\<close>, above 0.4 \<open>Medium\<close>, above 0.2 \<open>Low\<close>, else
  \<open>Very Low\<close>), whatever the API supplied; when no classification source was
  collected, there is no \<open>defect_probability\<close> and the \<open>risk_level\<close> is
  \<open>Very Low\<close>; when the collected classification lacks the \<open>defect_probability\<close>
  field, the \<open>defect_probability\<close> is \<open>N/A\<close> and the \<open>risk_level\<close> is \<open>Unknown\<close>.
\<close>

theorem risk_level_from_thresholds:
  assumes "key_metrics_body collected_data = Inr metrics"
  shows "extract_key_metrics collected_data = Inr metrics
     \<and> (\<forall>p. map_of metrics (lit ''defect_probability'') = Some p \<and> is_numeric p \<longrightarrow>
          map_of metrics (lit ''risk_level'') =
            Some (PStr (if num_of p > 8 / 10 then lit ''Critical''
                        else if num_of p > 6 / 10 then lit ''High''
                        else if num_of p > 4 / 10 then lit ''Medium''
                        else if num_of p > 2 / 10 then lit ''Low''
                        else lit ''Very Low'')))
     \<and> (no_classification collected_data \<longrightarrow>
          map_of metrics (lit ''defect_probability'') = None
          \<and> map_of metrics (lit ''risk_level'') = Some (PStr (lit ''Very Low'')))
     \<and> (classification_without_probability collected_data \<longrightarrow>
          map_of metrics (lit ''defect_probability'') = Some (PStr (lit ''N/A''))
          \<and> map_of metrics (lit ''risk_level'') = Some (PStr (lit ''Unknown'')))"
proof -
  from key_metrics_body_probability [OF assms] obtain m1 m4 where
    s: "classification_metrics collected_data [] = Inr m1" "metrics = with_risk_level m4"
       "map_of m4 (lit ''defect_probability'') = map_of m1 (lit ''defect_probability'')"
    by blast
  have a: "extract_key_metrics collected_data = Inr metrics"
    by (simp add: extract_key_metrics_def except_Exception_with_def assms)
  have b: "\<forall>p. map_of metrics (lit ''defect_probability'') = Some p \<and> is_numeric p \<longrightarrow>
          map_of metrics (lit ''risk_level'') =
            Some (PStr (if num_of p > 8 / 10 then lit ''Critical''
                        else if num_of p > 6 / 10 then lit ''High''
                        else if num_of p > 4 / 10 then lit ''Medium''
                        else if num_of p > 2 / 10 then lit ''Low''
                        else lit ''Very Low''))"
    unfolding s(2) with_risk_level_lookup
    by (simp add: dict_get_def risk_level_for_def)
  have c: "map_of metrics (lit ''defect_probability'') = None
          \<and> map_of metrics (lit ''risk_level'') = Some (PStr (lit ''Very Low''))"
    if "no_classification collected_data"
  proof -
    from classification_metrics_none [OF s(1) that] s(3)
    have "map_of m4 (lit ''defect_probability'') = None" by simp
    then show ?thesis
      unfolding s(2) with_risk_level_lookup
      by (simp add: dict_get_def risk_level_for_def)
  qed
  have d: "map_of metrics (lit ''defect_probability'') = Some (PStr (lit ''N/A''))
          \<and> map_of metrics (lit ''risk_level'') = Some (PStr (lit ''Unknown''))"
    if "classification_without_probability collected_data"
  proof -
    from classification_metrics_without_probability [OF s(1) that] s(3)
    have "map_of m4 (lit ''defect_probability'') = Some (PStr (lit ''N/A''))" by simp
    then show ?thesis
      unfolding s(2) with_risk_level_lookup
      by (simp add: dict_get_def)
  qed
  from a b c d show ?thesis by blast
qed

text \<open>
  Three inputs: a classification with probability 0.85 and the API's risk level
  \<open>low\<close> gives \<open>Critical\<close>; no source at all gives \<open>Very Low\<close>; a classification
  without \<open>defect_probability\<close> gives \<open>Unknown\<close>.
\<close>

theorem risk_level_from_thresholds_witness:
  "extract_key_metrics
      [(lit ''classification'',
          PDict [(lit ''defect_probability'', PFloat (85 / 100)),
                 (lit ''risk_level'', PStr (lit ''low'')),
                 (lit ''confidence'', PFloat (9 / 10))]),
       (lit ''quality'', PDict [(lit ''error'', PStr (lit ''HTTP 500''))])]
    = Inr [(lit ''defect_probability'', PFloat (85 / 100)),
           (lit ''risk_level'', PStr (lit ''Critical'')),
           (lit ''confidence_score'', PFloat (9 / 10))]
   \<and> extract_key_metrics [] = Inr [(lit ''risk_level'', PStr (lit ''Very Low''))]
   \<and> extract_key_metrics [(lit ''classification'', PDict [(lit ''risk_level'', PStr (lit ''high''))])]
    = Inr [(lit ''defect_probability'', PStr (lit ''N/A'')),
           (lit ''risk_level'', PStr (lit ''Unknown'')),
           (lit ''confidence_score'', PStr (lit ''N/A''))]"
proof -
  have a: "key_metrics_body
      [(lit ''classification'',
          PDict [(lit ''defect_probability'', PFloat (85 / 100)),
                 (lit ''risk_level'', PStr (lit ''low'')),
                 (lit ''confidence'', PFloat (9 / 10))]),
       (lit ''quality'', PDict [(lit ''error'', PStr (lit ''HTTP 500''))])]
    = Inr [(lit ''defect_probability'', PFloat (85 / 100)),
           (lit ''risk_level'', PStr (lit ''Critical'')),
           (lit ''confidence_score'', PFloat (9 / 10))]"
    by (simp add: key_metrics_body_def classification_metrics_def quality_metrics_def
        forecasting_metrics_def rl_metrics_def usable_source_def and_then_def dict_get_def
        with_risk_level_def risk_level_for_def lit_eq_iff Let_def)
  have b: "key_metrics_body [] = Inr [(lit ''risk_level'', PStr (lit ''Very Low''))]"
    by (simp add: key_metrics_body_def classification_metrics_def quality_metrics_def
        forecasting_metrics_def rl_metrics_def usable_source_def and_then_def dict_get_def
        with_risk_level_def risk_level_for_def lit_eq_iff Let_def)
  have c: "key_metrics_body [(lit ''classification'', PDict [(lit ''risk_level'', PStr (lit ''high''))])]
    = Inr [(lit ''defect_probability'', PStr (lit ''N/A'')),
           (lit ''risk_level'', PStr (lit ''Unknown'')),
           (lit ''confidence_score'', PStr (lit ''N/A''))]"
    by (simp add: key_metrics_body_def classification_metrics_def quality_metrics_def
        forecasting_metrics_def rl_metrics_def usable_source_def and_then_def dict_get_def
        with_risk_level_def risk_level_for_def lit_eq_iff Let_def)
  from risk_level_from_thresholds [OF a] risk_level_from_thresholds [OF b]
    risk_level_from_thresholds [OF c]
  show ?thesis by blast
qed

text \<open>
  C10 as stated fails when a block raises: with no classification collected and a
  forecasting response whose \<open>forecast\<close> is \<open>None\<close>, \<open>len\<close> raises \<open>TypeError\<close>, and
  the handler returns \<open>{'error': ...}\<close> only: there is no \<open>risk_level\<close> \<open>Very Low\<close>.
\<close>

theorem key_metrics_lost_on_exception:
  "no_classification [(lit ''forecasting'',
        PDict [(lit ''forecast_horizon'', PInt 30), (lit ''forecast'', PNone)])]
   \<and> extract_key_metrics [(lit ''forecasting'',
        PDict [(lit ''forecast_horizon'', PInt 30), (lit ''forecast'', PNone)])]
      = Inr [(lit ''error'', PStr (lit ''TypeError''))]"
  by (simp add: no_classification_def extract_key_metrics_def except_Exception_with_def
      key_metrics_body_def classification_metrics_def quality_metrics_def
      forecasting_metrics_def rl_metrics_def usable_source_def and_then_def dict_get_def
      TypeError_def lit_eq_iff)

subsection \<open>The quality control report generator\<close>

lemma successful_source_iff:
  assumes "successful_source cd k = Inr src"
  shows "src \<noteq> None \<longleftrightarrow> source_successful cd k"
proof (cases "map_of cd k")
  case None
  with assms show ?thesis
    by (simp add: successful_source_def source_successful_def dict_get_def)
next
  case (Some v)
  then have g: "dict_get cd k PNone = v"
    by (simp add: dict_get_def)
  have s: "source_successful cd k \<longleftrightarrow>
     truthy v \<and> (case v of PDict d \<Rightarrow> map_of d (lit ''error'') = None
                        | PStr s \<Rightarrow> \<not> str_contains (lit ''error'') s
                        | PList xs \<Rightarrow> PStr (lit ''error'') \<notin> set xs
                        | _ \<Rightarrow> False)"
    using Some by (simp add: source_successful_def)
  from assms show ?thesis
    unfolding successful_source_def g s
    by (cases v)
       (auto simp: Let_def and_then_def map_of_eq_None_iff TypeError_def split: if_splits)
qed

lemma process_source_count:
  assumes "process_source cd k block st = Inr st'"
  shows "fst st' = fst st + (if source_successful cd k then 1 else 0)"
proof -
  from assms obtain src where s: "successful_source cd k = Inr src"
    unfolding process_source_def by (auto simp: and_then_Inr)
  show ?thesis
  proof (cases src)
    case None
    with assms s successful_source_iff [OF s] show ?thesis
      by (simp add: process_source_def and_then_def)
  next
    case (Some v)
    with assms s successful_source_iff [OF s] show ?thesis
      by (auto simp: process_source_def and_then_Inr)
  qed
qed

lemma real_metrics_body_finish:
  assumes "real_metrics_body fmt cd = Inr metrics"
  shows "\<exists>m4. finish_metrics cd (successful_count cd, m4) = Inr metrics"
proof -
  from assms obtain st1 st2 st3 st4 where
    s: "process_source cd (lit ''classification'') process_classification (0, initial_metrics cd) = Inr st1"
       "process_source cd (lit ''quality'') process_quality st1 = Inr st2"
       "process_source cd (lit ''forecasting'') (process_forecasting fmt) st2 = Inr st3"
       "process_source cd (lit ''rl_actions'') (process_rl fmt) st3 = Inr st4"
       "finish_metrics cd st4 = Inr metrics"
    unfolding real_metrics_body_def by (auto simp: and_then_Inr)
  have "fst st4 = successful_count cd"
    using process_source_count [OF s(1)] process_source_count [OF s(2)]
      process_source_count [OF s(3)] process_source_count [OF s(4)]
    by (simp add: successful_count_def)
  with s(5) have "finish_metrics cd (successful_count cd, snd st4) = Inr metrics"
    by (metis prod.collapse)
  then show ?thesis ..
qed

lemma finish_metrics_reads:
  assumes "finish_metrics cd (K, m4) = Inr metrics"
  shows "success_rate_of metrics = Some (PFloat (of_nat K / 4 * 100))"
    and "health_status_of metrics = Some (PStr (overall_status K (recorded_errors cd)))"
  using assms
  unfolding finish_metrics_def success_rate_of_def health_status_of_def recorded_errors_def
  by (auto simp: Let_def and_then_Inr map_of_dict_set lit_eq_iff)

text \<open>
  C1, as the code has it. When the body of \<open>_extract_real_metrics\<close> completes
  without raising, with \<open>K\<close> of the four sources successful and \<open>E\<close> recorded
  collection errors, the metrics are returned, \<open>collection_success_rate\<close> is
  \<open>K / 4 * 100\<close>, and \<open>system_health.overall_status\<close> is \<open>healthy\<close> when \<open>K = 4\<close>
  and \<open>E = 0\<close>, \<open>healthy\<close> when \<open>K \<ge> 3\<close> and \<open>E \<le> 1\<close>, \<open>degraded\<close> when
  \<open>K \<ge> 3\<close> and \<open>E > 1\<close>, \<open>degraded\<close> when \<open>K = 2\<close>, and \<open>critical\<close> when
  \<open>K \<le> 1\<close>.
\<close>

theorem success_rate_and_health:
  assumes "real_metrics_body fmt collected_data = Inr metrics"
  shows "extract_real_metrics fmt collected_data = Inr metrics
     \<and> success_rate_of metrics = Some (PFloat (of_nat (successful_count collected_data) / 4 * 100))
     \<and> health_status_of metrics =
         Some (PStr (if successful_count collected_data = 4 \<and> recorded_errors collected_data = 0
                     then lit ''healthy''
                     else if successful_count collected_data \<ge> 3 \<and> recorded_errors collected_data \<le> 1
                     then lit ''healthy''
                     else if successful_count collected_data \<ge> 3 \<and> recorded_errors collected_data > 1
                     then lit ''degraded''
                     else if successful_count collected_data = 2 then lit ''degraded''
                     else lit ''critical''))"
proof -
  from real_metrics_body_finish [OF assms] obtain m4 where
    f: "finish_metrics collected_data (successful_count collected_data, m4) = Inr metrics" ..
  have a: "extract_real_metrics fmt collected_data = Inr metrics"
    by (simp add: extract_real_metrics_def except_Exception_with_def assms)
  have t: "overall_status K E =
     (if K = 4 \<and> E = 0 then lit ''healthy''
      else if K \<ge> 3 \<and> E \<le> 1 then lit ''healthy''
      else if K \<ge> 3 \<and> E > 1 then lit ''degraded''
      else if K = 2 then lit ''degraded''
      else lit ''critical'')" for K E
    by (auto simp: overall_status_def)
  from a finish_metrics_reads [OF f] show ?thesis
    by (simp only: t)
qed

text \<open>
  When the body raises, the handler returns the fallback metrics: success rate 0.0 and
  status \<open>critical\<close>, whatever \<open>K\<close> and \<open>E\<close> are.
\<close>

lemma extract_real_metrics_fallback:
  assumes "real_metrics_body fmt cd = Inl e" and "is_Exception e"
  shows "extract_real_metrics fmt cd = Inr (metrics_fallback fmt e)"
    and "success_rate_of (metrics_fallback fmt e) = Some (PFloat 0)"
    and "health_status_of (metrics_fallback fmt e) = Some (PStr (lit ''critical''))"
  using assms
  by (simp_all add: extract_real_metrics_def except_Exception_with_def metrics_fallback_def
      success_rate_of_def health_status_of_def lit_eq_iff)

text \<open>
  Classification, forecasting and quality collected, the RL source failed, no recorded
  error: \<open>K = 3\<close>, the success rate is 75 and the status \<open>healthy\<close>.
\<close>

theorem success_rate_and_health_witness:
  "successful_count
      [(lit ''timestamp'', PStr (lit ''2025-06-01T00:00:00'')),
       (lit ''classification'',
          PDict [(lit ''defect_probability'', PFloat (82 / 100)), (lit ''risk_level'', PStr (lit ''high''))]),
       (lit ''forecasting'', PDict [(lit ''forecast_horizon'', PInt 30), (lit ''forecast'', PList [])]),
       (lit ''quality'', PDict [(lit ''quality_class'', PStr (lit ''Low'')), (lit ''confidence'', PFloat (6 / 10))]),
       (lit ''rl_actions'', PDict [(lit ''error'', PStr (lit ''timeout''))]),
       (lit ''collection_errors'', PList [])] = 3
   \<and> (\<exists>metrics.
        extract_real_metrics
          \<lparr>fmt_str = (\<lambda>v. lit ''30''), fmt_3f = (\<lambda>x. lit ''0.000''), fmt_now = lit ''2025-06-01T00:00:01''\<rparr>
          [(lit ''timestamp'', PStr (lit ''2025-06-01T00:00:00'')),
           (lit ''classification'',
              PDict [(lit ''defect_probability'', PFloat (82 / 100)), (lit ''risk_level'', PStr (lit ''high''))]),
           (lit ''forecasting'', PDict [(lit ''forecast_horizon'', PInt 30), (lit ''forecast'', PList [])]),
           (lit ''quality'', PDict [(lit ''quality_class'', PStr (lit ''Low'')), (lit ''confidence'', PFloat (6 / 10))]),
           (lit ''rl_actions'', PDict [(lit ''error'', PStr (lit ''timeout''))]),
           (lit ''collection_errors'', PList [])] = Inr metrics
        \<and> success_rate_of metrics = Some (PFloat 75)
        \<and> health_status_of metrics = Some (PStr (lit ''healthy'')))"
proof -
  let ?fmt = "\<lparr>fmt_str = (\<lambda>v. lit ''30''), fmt_3f = (\<lambda>x. lit ''0.000''), fmt_now = lit ''2025-06-01T00:00:01''\<rparr>"
  let ?cd = "[(lit ''timestamp'', PStr (lit ''2025-06-01T00:00:00'')),
       (lit ''classification'',
          PDict [(lit ''defect_probability'', PFloat (82 / 100)), (lit ''risk_level'', PStr (lit ''high''))]),
       (lit ''forecasting'', PDict [(lit ''forecast_horizon'', PInt 30), (lit ''forecast'', PList [])]),
       (lit ''quality'', PDict [(lit ''quality_class'', PStr (lit ''Low'')), (lit ''confidence'', PFloat (6 / 10))]),
       (lit ''rl_actions'', PDict [(lit ''error'', PStr (lit ''timeout''))]),
       (lit ''collection_errors'', PList [])]"
  have k: "successful_count ?cd = 3"
    by (simp add: successful_count_def source_successful_def lit_eq_iff)
  have e: "recorded_errors ?cd = 0"
    by (simp add: recorded_errors_def dict_get_def lit_eq_iff)
  have "\<exists>metrics. real_metrics_body ?fmt ?cd = Inr metrics"
    by (simp add: real_metrics_body_def process_source_def successful_source_def
        process_classification_def process_quality_def process_forecasting_def process_rl_def
        finish_metrics_def initial_metrics_def and_then_def dict_get_def Let_def lit_eq_iff)
  then obtain metrics where b: "real_metrics_body ?fmt ?cd = Inr metrics" ..
  from success_rate_and_health [OF b] k e show ?thesis
    by simp
qed

text \<open>
  C1 as stated fails when the body raises. All four sources are present without
  \<open>'error'\<close> (\<open>K = 4\<close>) and no error is recorded (\<open>E = 0\<close>), but the forecasting
  response has \<open>"forecast": None\<close>: \<open>len(forecast_list)\<close> raises \<open>TypeError\<close>, and the
  handler returns the success rate 0.0 and the status \<open>critical\<close>, not 100 and
  \<open>healthy\<close>.
\<close>

theorem success_rate_lost_on_exception:
  "successful_count
      [(lit ''timestamp'', PStr (lit ''2025-06-01T00:00:00'')),
       (lit ''classification'',
          PDict [(lit ''defect_probability'', PFloat (5 / 100)), (lit ''risk_level'', PStr (lit ''low''))]),
       (lit ''forecasting'', PDict [(lit ''forecast_horizon'', PInt 30), (lit ''forecast'', PNone)]),
       (lit ''quality'', PDict [(lit ''quality_class'', PStr (lit ''High'')), (lit ''confidence'', PFloat (9 / 10))]),
       (lit ''rl_actions'', PDict [(lit ''recommended_actions'', PDict [])]),
       (lit ''collection_errors'', PList [])] = 4
   \<and> recorded_errors
      [(lit ''timestamp'', PStr (lit ''2025-06-01T00:00:00'')),
       (lit ''classification'',
          PDict [(lit ''defect_probability'', PFloat (5 / 100)), (lit ''risk_level'', PStr (lit ''low''))]),
       (lit ''forecasting'', PDict [(lit ''forecast_horizon'', PInt 30), (lit ''forecast'', PNone)]),
       (lit ''quality'', PDict [(lit ''quality_class'', PStr (lit ''High'')), (lit ''confidence'', PFloat (9 / 10))]),
       (lit ''rl_actions'', PDict [(lit ''recommended_actions'', PDict [])]),
       (lit ''collection_errors'', PList [])] = 0
   \<and> extract_real_metrics
      \<lparr>fmt_str = (\<lambda>v. lit ''30''), fmt_3f = (\<lambda>x. lit ''0.000''), fmt_now = lit ''2025-06-01T00:00:01''\<rparr>
      [(lit ''timestamp'', PStr (lit ''2025-06-01T00:00:00'')),
       (lit ''classification'',
          PDict [(lit ''defect_probability'', PFloat (5 / 100)), (lit ''risk_level'', PStr (lit ''low''))]),
       (lit ''forecasting'', PDict [(lit ''forecast_horizon'', PInt 30), (lit ''forecast'', PNone)]),
       (lit ''quality'', PDict [(lit ''quality_class'', PStr (lit ''High'')), (lit ''confidence'', PFloat (9 / 10))]),
       (lit ''rl_actions'', PDict [(lit ''recommended_actions'', PDict [])]),
       (lit ''collection_errors'', PList [])]
     = Inr [(lit ''error'', PStr (lit ''TypeError'')),
            (lit ''data_collection_time'', PStr (lit ''2025-06-01T00:00:01'')),
            (lit ''total_predictions'', PInt 0),
            (lit ''collection_success_rate'', PFloat 0),
            (lit ''system_health'',
               PDict [(lit ''overall_status'', PStr (lit ''critical'')),
                      (lit ''collection_errors'', PInt 1),
                      (lit ''data_availability'', PStr (lit ''0/4 sources online''))])]"
  by (simp add: successful_count_def source_successful_def recorded_errors_def
      extract_real_metrics_def except_Exception_with_def metrics_fallback_def
      real_metrics_body_def process_source_def successful_source_def
      process_classification_def process_quality_def process_forecasting_def process_rl_def
      finish_metrics_def initial_metrics_def and_then_def dict_get_def Let_def TypeError_def
      lit_eq_iff)

lemma emergency_report_fields:
  "\<exists>d. generate_emergency_report steps msg = PDict d
       \<and> map_of d (lit ''status'') = Some (PStr (lit ''error''))
       \<and> map_of d (lit ''error_message'') = Some (PStr msg)
       \<and> map_of d (lit ''risk_assessment'')
           = Some (PStr (lit ''HIGH RISK - Quality monitoring system failure requires immediate attention''))"
  by (simp add: generate_emergency_report_def lit_eq_iff)

text \<open>
  C2, as the code has it. \<open>generate_report\<close> returns the report when the body of its
  \<open>try\<close> block returns one. When any step of the body raises an exception deriving
  from \<open>Exception\<close> (for the LLM step: when the template that replaces it raises), the
  result is the emergency report: a dictionary with the fixed emergency texts, the status
  \<open>error\<close> and the message \<open>str(e)\<close>. The only exceptions that leave
  \<open>generate_report\<close> are those that do not derive from \<open>Exception\<close>.
\<close>

theorem generate_report_catches_Exception:
  "(\<forall>report. report_body steps fmt sources q = Inr report \<longrightarrow>
       generate_report steps fmt sources q = Inr report)
   \<and> (\<forall>e. report_body steps fmt sources q = Inl e \<and> is_Exception e \<longrightarrow>
       generate_report steps fmt sources q = Inr (generate_emergency_report steps (exc_str e))
       \<and> (\<exists>d. generate_emergency_report steps (exc_str e) = PDict d
              \<and> map_of d (lit ''status'') = Some (PStr (lit ''error''))
              \<and> map_of d (lit ''error_message'') = Some (PStr (exc_str e))))
   \<and> (\<forall>e. generate_report steps fmt sources q = Inl e \<longrightarrow>
       \<not> is_Exception e \<and> report_body steps fmt sources q = Inl e)"
proof -
  have a: "\<forall>report. report_body steps fmt sources q = Inr report \<longrightarrow>
       generate_report steps fmt sources q = Inr report"
    by (simp add: generate_report_def)
  have b: "\<forall>e. report_body steps fmt sources q = Inl e \<and> is_Exception e \<longrightarrow>
       generate_report steps fmt sources q = Inr (generate_emergency_report steps (exc_str e))
       \<and> (\<exists>d. generate_emergency_report steps (exc_str e) = PDict d
              \<and> map_of d (lit ''status'') = Some (PStr (lit ''error''))
              \<and> map_of d (lit ''error_message'') = Some (PStr (exc_str e)))"
    using emergency_report_fields [of steps] by (auto simp: generate_report_def)
  have c: "\<forall>e. generate_report steps fmt sources q = Inl e \<longrightarrow>
       \<not> is_Exception e \<and> report_body steps fmt sources q = Inl e"
    by (auto simp: generate_report_def split: sum.splits if_splits)
  from a b c show ?thesis by blast
qed

text \<open>
  All four endpoints answer with status 500, no LLM is available and the template
  raises \<open>Exception("template failed")\<close>: the result is the emergency report with that
  message.
\<close>

theorem generate_report_catches_Exception_witness:
  "generate_report
      \<lparr>llm_available = False,
       generate_llm_report = (\<lambda>m c q. Inl (PyExc True (lit ''LLM generation failed''))),
       generate_enhanced_template_report = (\<lambda>m c. Inl (PyExc True (lit ''template failed''))),
       build_comprehensive_report_content = (\<lambda>r m. Inr (lit ''content'')),
       get_data_source_info = (\<lambda>c. Inr (PDict [])),
       create_data_summary = (\<lambda>c. Inr (PDict [])),
       assess_data_freshness = (\<lambda>c. Inr (PStr (lit ''Unknown''))),
       report_time = lit ''2025-06-01T00:00:00'',
       report_time_id = lit ''20250601_000000''\<rparr>
      \<lparr>fmt_str = (\<lambda>v. lit ''30''), fmt_3f = (\<lambda>x. lit ''0.000''),
       fmt_now = lit ''2025-06-01T00:00:01''\<rparr>
      (data_sources (Response 500 (Inr PNone)) (Response 500 (Inr PNone))
         (Response 500 (Inr PNone)) (Response 500 (Inr PNone)))
      (lit ''weekly report'')
    = Inr (generate_emergency_report
      \<lparr>llm_available = False,
       generate_llm_report = (\<lambda>m c q. Inl (PyExc True (lit ''LLM generation failed''))),
       generate_enhanced_template_report = (\<lambda>m c. Inl (PyExc True (lit ''template failed''))),
       build_comprehensive_report_content = (\<lambda>r m. Inr (lit ''content'')),
       get_data_source_info = (\<lambda>c. Inr (PDict [])),
       create_data_summary = (\<lambda>c. Inr (PDict [])),
       assess_data_freshness = (\<lambda>c. Inr (PStr (lit ''Unknown''))),
       report_time = lit ''2025-06-01T00:00:00'',
       report_time_id = lit ''20250601_000000''\<rparr>
      (lit ''template failed''))"
proof -
  have b: "report_body
      \<lparr>llm_available = False,
       generate_llm_report = (\<lambda>m c q. Inl (PyExc True (lit ''LLM generation failed''))),
       generate_enhanced_template_report = (\<lambda>m c. Inl (PyExc True (lit ''template failed''))),
       build_comprehensive_report_content = (\<lambda>r m. Inr (lit ''content'')),
       get_data_source_info = (\<lambda>c. Inr (PDict [])),
       create_data_summary = (\<lambda>c. Inr (PDict [])),
       assess_data_freshness = (\<lambda>c. Inr (PStr (lit ''Unknown''))),
       report_time = lit ''2025-06-01T00:00:00'',
       report_time_id = lit ''20250601_000000''\<rparr>
      \<lparr>fmt_str = (\<lambda>v. lit ''30''), fmt_3f = (\<lambda>x. lit ''0.000''),
       fmt_now = lit ''2025-06-01T00:00:01''\<rparr>
      (data_sources (Response 500 (Inr PNone)) (Response 500 (Inr PNone))
         (Response 500 (Inr PNone)) (Response 500 (Inr PNone)))
      (lit ''weekly report'')
    = Inl (PyExc True (lit ''template failed''))"
    by (simp add: report_body_def report_content_of_def collect_comprehensive_data_def
        data_sources_def collect_source_def copy_source_def except_Exception_with_def
        extract_real_metrics_def real_metrics_body_def process_source_def successful_source_def
        finish_metrics_def initial_metrics_def and_then_def dict_get_def Let_def lit_eq_iff)
  from generate_report_catches_Exception
    [of "\<lparr>llm_available = False,
       generate_llm_report = (\<lambda>m c q. Inl (PyExc True (lit ''LLM generation failed''))),
       generate_enhanced_template_report = (\<lambda>m c. Inl (PyExc True (lit ''template failed''))),
       build_comprehensive_report_content = (\<lambda>r m. Inr (lit ''content'')),
       get_data_source_info = (\<lambda>c. Inr (PDict [])),
       create_data_summary = (\<lambda>c. Inr (PDict [])),
       assess_data_freshness = (\<lambda>c. Inr (PStr (lit ''Unknown''))),
       report_time = lit ''2025-06-01T00:00:00'',
       report_time_id = lit ''20250601_000000''\<rparr>"
        "\<lparr>fmt_str = (\<lambda>v. lit ''30''), fmt_3f = (\<lambda>x. lit ''0.000''),
       fmt_now = lit ''2025-06-01T00:00:01''\<rparr>"
        "data_sources (Response 500 (Inr PNone)) (Response 500 (Inr PNone))
         (Response 500 (Inr PNone)) (Response 500 (Inr PNone))"
        "lit ''weekly report''"] b
  show ?thesis by simp
qed

text \<open>
  C2 as stated fails for an exception that does not derive from \<open>Exception\<close>: when
  the first request of the collection is cancelled (\<open>asyncio.CancelledError\<close>), no
  handler \<open>except Exception\<close> catches the exception and it leaves \<open>generate_report\<close>.
\<close>

theorem generate_report_cancelled_escapes:
  "generate_report
      \<lparr>llm_available = False,
       generate_llm_report = (\<lambda>m c q. Inl (PyExc True (lit ''LLM generation failed''))),
       generate_enhanced_template_report = (\<lambda>m c. Inl (PyExc True (lit ''template failed''))),
       build_comprehensive_report_content = (\<lambda>r m. Inr (lit ''content'')),
       get_data_source_info = (\<lambda>c. Inr (PDict [])),
       create_data_summary = (\<lambda>c. Inr (PDict [])),
       assess_data_freshness = (\<lambda>c. Inr (PStr (lit ''Unknown''))),
       report_time = lit ''2025-06-01T00:00:00'',
       report_time_id = lit ''20250601_000000''\<rparr>
      \<lparr>fmt_str = (\<lambda>v. lit ''30''), fmt_3f = (\<lambda>x. lit ''0.000''),
       fmt_now = lit ''2025-06-01T00:00:01''\<rparr>
      (data_sources (TransportError (PyExc False (lit ''CancelledError'')))
         (Response 500 (Inr PNone)) (Response 500 (Inr PNone)) (Response 500 (Inr PNone)))
      (lit ''weekly report'')
    = Inl (PyExc False (lit ''CancelledError''))"
  by (simp add: generate_report_def report_body_def collect_comprehensive_data_def
      data_sources_def collect_source_def except_Exception_with_def and_then_def)

end
